theory Spec2Isabelle
  imports Main "HOL-Library.Word"
begin

chapter \<open>ghpm: a shallow embedding of the install, remove and resolve paths\<close>

text \<open>
  The theory follows the Go sources package by package: the string and path helpers of the
  standard library that the code calls, \<^verbatim>\<open>internal/source\<close> (release resolution and
  ordering), \<^verbatim>\<open>internal/state\<close> (receipts and the installed index),
  \<^verbatim>\<open>internal/manifest\<close>, and \<^verbatim>\<open>internal/ghpm\<close> (archive listing, planning, install and
  remove). Go's \<^verbatim>\<open>(value, error)\<close> results are sums with the error on the left; a
  function that mutates the file system takes the state and returns the new one.
\<close>

section \<open>Standard library: strings\<close>

text \<open>Go's \<^verbatim>\<open>int\<close> on a 64-bit platform: arithmetic wraps, comparison is signed.\<close>

type_synonym int64 = "64 word"

definition HasPrefix :: "string \<Rightarrow> string \<Rightarrow> bool" where
  "HasPrefix s p = (take (length p) s = p)"

definition HasSuffix :: "string \<Rightarrow> string \<Rightarrow> bool" where
  "HasSuffix s p = (length p \<le> length s \<and> drop (length s - length p) s = p)"

definition TrimPrefix :: "string \<Rightarrow> string \<Rightarrow> string" where
  "TrimPrefix s p = (if HasPrefix s p then drop (length p) s else s)"

text \<open>\<^verbatim>\<open>strings.Split(s, sep)\<close> for a one-byte separator: never the empty list.\<close>

primrec Split :: "char \<Rightarrow> string \<Rightarrow> string list" where
  "Split c [] = [[]]"
| "Split c (x # xs) =
     (if x = c then [] # Split c xs
      else (case Split c xs of [] \<Rightarrow> [[x]] | y # ys \<Rightarrow> (x # y) # ys))"

text \<open>\<^verbatim>\<open>strings.Join(elems, sep)\<close>.\<close>

fun JoinWith :: "string \<Rightarrow> string list \<Rightarrow> string" where
  "JoinWith sep [] = []"
| "JoinWith sep [x] = x"
| "JoinWith sep (x # y # ys) = x @ sep @ JoinWith sep (y # ys)"

text \<open>\<^verbatim>\<open>strings.Compare\<close>: bytewise lexicographic, \<open>-1\<close>, \<open>0\<close> or \<open>1\<close>.\<close>

fun Compare :: "string \<Rightarrow> string \<Rightarrow> int" where
  "Compare [] [] = 0"
| "Compare [] (y # ys) = - 1"
| "Compare (x # xs) [] = 1"
| "Compare (x # xs) (y # ys) =
     (if (of_char x :: nat) < of_char y then - 1
      else if (of_char y :: nat) < of_char x then 1
      else Compare xs ys)"

section \<open>Standard library: path/filepath on a Unix system\<close>

text \<open>
  \<^verbatim>\<open>filepath.Clean\<close> works through the slash-separated elements of the path: empty
  elements and \<^verbatim>\<open>.\<close> are dropped, \<^verbatim>\<open>..\<close> removes the element before it when there is one
  that is not itself \<^verbatim>\<open>..\<close>, is dropped at the root of a rooted path and is kept at the
  start of a relative one. The stack is kept with its top first.
\<close>

definition cleanStep :: "bool \<Rightarrow> string list \<Rightarrow> string \<Rightarrow> string list" where
  "cleanStep rooted st c =
     (if c = [] \<or> c = ''.'' then st
      else if c = ''..'' then
        (if st \<noteq> [] \<and> hd st \<noteq> ''..'' then tl st
         else if rooted then st
         else ''..'' # st)
      else c # st)"

definition Clean :: "string \<Rightarrow> string" where
  "Clean path =
     (if path = [] then ''.''
      else
        let rooted = (hd path = CHR ''/'');
            body = JoinWith ''/'' (rev (foldl (cleanStep rooted) [] (Split CHR ''/'' path)))
        in if rooted then CHR ''/'' # body
           else if body = [] then ''.''
           else body)"

text \<open>
  \<^verbatim>\<open>filepath.Join\<close>: leading empty elements are skipped, the rest is joined with slashes
  and cleaned; the result is empty when every element is.
\<close>

definition Join :: "string list \<Rightarrow> string" where
  "Join elem =
     (case dropWhile (\<lambda>e. e = []) elem of
        [] \<Rightarrow> []
      | es \<Rightarrow> Clean (JoinWith ''/'' es))"

text \<open>The part of a path up to and including its last slash; empty when it has none.\<close>

primrec uptoLastSlash :: "string \<Rightarrow> string" where
  "uptoLastSlash [] = []"
| "uptoLastSlash (x # xs) =
     (if CHR ''/'' \<in> set xs \<or> x = CHR ''/'' then x # uptoLastSlash xs else [])"

definition Dir :: "string \<Rightarrow> string" where
  "Dir path = Clean (uptoLastSlash path)"

definition Base :: "string \<Rightarrow> string" where
  "Base path =
     (if path = [] then ''.''
      else
        let p = rev (dropWhile (\<lambda>c. c = CHR ''/'') (rev path));
            b = drop (length (uptoLastSlash p)) p
        in if b = [] then ''/'' else b)"

section \<open>internal/source: releases, resolvers and release ordering\<close>

record Asset =
  asset_Name :: string
  asset_URL :: string
  asset_Size :: int

text \<open>
  \<^verbatim>\<open>Published\<close> is a \<^verbatim>\<open>time.Time\<close>; only its order is used, so an instant is an integer
  and the zero time is \<open>0\<close>.
\<close>

record Release =
  rel_Tag :: string
  rel_ID :: int
  rel_Published :: int
  rel_Assets :: "Asset list"

text \<open>The zero value \<^verbatim>\<open>Release{}\<close>.\<close>

definition Release0 :: Release where
  "Release0 = \<lparr>rel_Tag = [], rel_ID = 0, rel_Published = 0, rel_Assets = []\<rparr>"

datatype error =
    ErrNotExist string
  | ErrOS string string
  | ErrDecode string
  | ErrHTTPNeedsVersion
  | ErrUnknownKind string
  | ErrNoReleases string
  | ErrVersionNotFound string
  | ErrAssetNotFound string
  | ErrAssetNeedsNameOrPattern
  | ErrUnsupportedAction string
  | ErrUnsupportedFrom string
  | ErrArchiveFormat string
  | ErrInvalidManifest string
  | ErrInvalidAction nat string
  | ErrDownload string int
  | ErrInstallConflicts "string list"
  | ErrPanic string

record githubAsset =
  gha_Name :: string
  gha_URL :: string
  gha_Size :: int

record githubRelease =
  ghr_TagName :: string
  ghr_ID :: int
  ghr_Draft :: bool
  ghr_Prerelease :: bool
  ghr_Published :: int
  ghr_Assets :: "githubAsset list"

record gitlabAsset =
  gla_Name :: string
  gla_URL :: string

record gitlabRelease =
  glr_TagName :: string
  glr_Released :: string
  glr_Links :: "gitlabAsset list"

text \<open>
  What the resolvers take from outside the program: the decoded answer of each forge's
  releases endpoint (or the request's error), \<^verbatim>\<open>sort.Slice\<close> (not stable, and used here
  with a comparison that need not be an order, so its result is left to the library),
  and \<^verbatim>\<open>time.Parse(time.RFC3339, _)\<close>.
\<close>

record net =
  net_github :: "string \<Rightarrow> error + githubRelease list"
  net_gitlab :: "string \<Rightarrow> error + gitlabRelease list"
  net_sortGithub :: "(githubRelease \<Rightarrow> githubRelease \<Rightarrow> bool) \<Rightarrow> githubRelease list \<Rightarrow> githubRelease list"
  net_sortGitlab :: "(gitlabRelease \<Rightarrow> gitlabRelease \<Rightarrow> bool) \<Rightarrow> gitlabRelease list \<Rightarrow> gitlabRelease list"
  net_parseRFC3339 :: "string \<Rightarrow> int option"

datatype Resolver = githubResolver | gitlabResolver | httpResolver

definition NewResolver :: "string \<Rightarrow> error + Resolver" where
  "NewResolver kind =
     (if kind = ''github'' then Inr githubResolver
      else if kind = ''gitlab'' then Inr gitlabResolver
      else if kind = ''http'' then Inr httpResolver
      else Inl (ErrUnknownKind kind))"

text \<open>The loop of \<^verbatim>\<open>parseSemver\<close> over one part: the digits up to the first other rune.\<close>

fun numPrefix :: "int64 \<Rightarrow> string \<Rightarrow> int64" where
  "numPrefix n [] = n"
| "numPrefix n (ch # cs) =
     (if (of_char ch :: nat) < 48 \<or> 57 < (of_char ch :: nat) then n
      else numPrefix (n * 10 + of_nat (of_char ch - 48)) cs)"

text \<open>\<^verbatim>\<open>[3]int\<close> is a list of three numbers; parts that are missing stay \<open>0\<close>.\<close>

definition parseSemver :: "string \<Rightarrow> int64 list option" where
  "parseSemver tag =
     (let parts = Split CHR ''.'' (TrimPrefix tag ''v'') in
      if length parts < 2 then None
      else Some (map (numPrefix 0) (take 3 parts) @ replicate (3 - length parts) 0))"

fun cmpNums :: "int64 list \<Rightarrow> int64 list \<Rightarrow> int" where
  "cmpNums (a # as) (b # bs) =
     (if b <s a then 1 else if a <s b then - 1 else cmpNums as bs)"
| "cmpNums _ _ = 0"

text \<open>\<^verbatim>\<open>compareSemver\<close> returns \<^verbatim>\<open>(score, ok)\<close>: \<open>None\<close> is \<^verbatim>\<open>ok = false\<close>.\<close>

definition compareSemver :: "string \<Rightarrow> string \<Rightarrow> int option" where
  "compareSemver a b =
     (case parseSemver a of
        None \<Rightarrow> None
      | Some va \<Rightarrow>
          (case parseSemver b of None \<Rightarrow> None | Some vb \<Rightarrow> Some (cmpNums va vb)))"

definition compareReleases :: "string \<Rightarrow> string \<Rightarrow> int \<Rightarrow> int \<Rightarrow> int" where
  "compareReleases tagA tagB timeA timeB =
     (case compareSemver tagA tagB of
        Some score \<Rightarrow> score
      | None \<Rightarrow>
          if timeB < timeA then 1
          else if timeA < timeB then - 1
          else Compare tagA tagB)"

definition mapGitHubRelease :: "githubRelease \<Rightarrow> Release" where
  "mapGitHubRelease rel =
     \<lparr>rel_Tag = ghr_TagName rel, rel_ID = ghr_ID rel, rel_Published = ghr_Published rel,
      rel_Assets = map (\<lambda>a. \<lparr>asset_Name = gha_Name a, asset_URL = gha_URL a,
                               asset_Size = gha_Size a\<rparr>) (ghr_Assets rel)\<rparr>"

definition mapGitLabRelease :: "gitlabRelease \<Rightarrow> Release" where
  "mapGitLabRelease rel =
     \<lparr>rel_Tag = glr_TagName rel, rel_ID = 0, rel_Published = 0,
      rel_Assets = map (\<lambda>a. \<lparr>asset_Name = gla_Name a, asset_URL = gla_URL a,
                               asset_Size = 0\<rparr>) (glr_Links rel)\<rparr>"

definition parseGitLabTime :: "net \<Rightarrow> string \<Rightarrow> int" where
  "parseGitLabTime nw v =
     (if v = [] then 0
      else case net_parseRFC3339 nw v of Some t \<Rightarrow> t | None \<Rightarrow> 0)"

definition githubListReleases :: "net \<Rightarrow> string \<Rightarrow> error + githubRelease list" where
  "githubListReleases nw repo =
     (case net_github nw repo of
        Inl e \<Rightarrow> Inl e
      | Inr releases \<Rightarrow> Inr (filter (\<lambda>r. \<not> (ghr_Draft r \<or> ghr_Prerelease r)) releases))"

definition ResolveRelease :: "net \<Rightarrow> Resolver \<Rightarrow> string \<Rightarrow> string \<Rightarrow> error + Release" where
  "ResolveRelease nw r repo version =
     (case r of
        httpResolver \<Rightarrow>
          if version = [] then Inl ErrHTTPNeedsVersion
          else Inr (Release0\<lparr>rel_Tag := version\<rparr>)
      | githubResolver \<Rightarrow>
          (case githubListReleases nw repo of
             Inl e \<Rightarrow> Inl e
           | Inr releases \<Rightarrow>
               if releases = [] then Inl (ErrNoReleases repo)
               else if version \<noteq> [] then
                 (case find (\<lambda>rel. ghr_TagName rel = version) releases of
                    Some rel \<Rightarrow> Inr (mapGitHubRelease rel)
                  | None \<Rightarrow> Inl (ErrVersionNotFound version))
               else
                 (case net_sortGithub nw
                         (\<lambda>x y. 0 < compareReleases (ghr_TagName x) (ghr_TagName y)
                                        (ghr_Published x) (ghr_Published y)) releases of
                    rel # _ \<Rightarrow> Inr (mapGitHubRelease rel)
                  | [] \<Rightarrow> Inl (ErrPanic ''index out of range'')))
      | gitlabResolver \<Rightarrow>
          (case net_gitlab nw repo of
             Inl e \<Rightarrow> Inl e
           | Inr releases \<Rightarrow>
               if releases = [] then Inl (ErrNoReleases repo)
               else if version \<noteq> [] then
                 (case find (\<lambda>rel. glr_TagName rel = version) releases of
                    Some rel \<Rightarrow> Inr (mapGitLabRelease rel)
                  | None \<Rightarrow> Inl (ErrVersionNotFound version))
               else
                 (case net_sortGitlab nw
                         (\<lambda>x y. 0 < compareReleases (glr_TagName x) (glr_TagName y)
                                        (parseGitLabTime nw (glr_Released x))
                                        (parseGitLabTime nw (glr_Released y))) releases of
                    rel # _ \<Rightarrow> Inr (mapGitLabRelease rel)
                  | [] \<Rightarrow> Inl (ErrPanic ''index out of range''))))"

subsection \<open>The ordering as the specification words it\<close>

text \<open>
  The numeric prefix of a part as a natural number, the three numbers of a tag (optional
  leading \<^verbatim>\<open>v\<close>, at least MAJOR.MINOR, a missing PATCH is \<open>0\<close>) and their comparison:
  major, then minor, then patch, the higher wins.
\<close>

fun natPrefix :: "nat \<Rightarrow> string \<Rightarrow> nat" where
  "natPrefix n [] = n"
| "natPrefix n (ch # cs) =
     (if (of_char ch :: nat) < 48 \<or> 57 < (of_char ch :: nat) then n
      else natPrefix (n * 10 + (of_char ch - 48)) cs)"

definition semverSpec :: "string \<Rightarrow> (nat \<times> nat \<times> nat) option" where
  "semverSpec tag =
     (case Split CHR ''.'' (TrimPrefix tag ''v'') of
        major # minor # rest \<Rightarrow>
          Some (natPrefix 0 major, natPrefix 0 minor,
                case rest of [] \<Rightarrow> 0 | patch # _ \<Rightarrow> natPrefix 0 patch)
      | _ \<Rightarrow> None)"

definition orderSpec :: "nat \<times> nat \<times> nat \<Rightarrow> nat \<times> nat \<times> nat \<Rightarrow> int" where
  "orderSpec x y =
     (case x of (a1, a2, a3) \<Rightarrow> case y of (b1, b2, b3) \<Rightarrow>
        if b1 < a1 then 1 else if a1 < b1 then - 1
        else if b2 < a2 then 1 else if a2 < b2 then - 1
        else if b3 < a3 then 1 else if a3 < b3 then - 1
        else 0)"

definition fitsInt :: "nat \<times> nat \<times> nat \<Rightarrow> bool" where
  "fitsInt x = (case x of (a, b, c) \<Rightarrow> a < 2 ^ 63 \<and> b < 2 ^ 63 \<and> c < 2 ^ 63)"

section \<open>internal/manifest\<close>

record AssetAction =
  aa_Name :: string
  aa_Pattern :: string
  aa_Target :: string
  aa_Mode :: string
  aa_Preserve :: bool

record URLAction =
  ua_URL :: string
  ua_Target :: string
  ua_Mode :: string
  ua_Preserve :: bool

record FileAction =
  fa_Path :: string
  fa_Target :: string
  fa_Mode :: string
  fa_Preserve :: bool

record SymlinkAction =
  sa_Target :: string
  sa_To :: string

record ExtractFrom =
  ef_Type :: string
  ef_Name :: string
  ef_Pattern :: string
  ef_URL :: string
  ef_Path :: string

record ExtractAction =
  ea_From :: ExtractFrom
  ea_Format :: string
  ea_StripComponents :: int
  ea_TargetDir :: string
  ea_Pick :: "string list"
  ea_Omit :: "string list"

record MkdirAction =
  ma_Path :: string
  ma_Mode :: string
  ma_Owner :: string
  ma_Group :: string

text \<open>
  Go's \<^verbatim>\<open>Action\<close> is a type string with one pointer per variant. Its only producer,
  \<^verbatim>\<open>UnmarshalYAML\<close>, sets the pointer of the action's type and no other and refuses an
  empty or unknown type, so an action is a tagged union; \<^verbatim>\<open>Type\<close> is read off the tag.
\<close>

datatype Action =
    ActAsset AssetAction
  | ActURL URLAction
  | ActFile FileAction
  | ActSymlink SymlinkAction
  | ActExtract ExtractAction
  | ActMkdir MkdirAction

record Source =
  src_Kind :: string
  src_Repo :: string

record Manifest =
  mf_Name :: string
  mf_Description :: string
  mf_Source :: Source
  mf_Install :: "Action list"
  mf_PostInstall :: "string list"
  mf_PostRemove :: "string list"
  mf_Path :: string

record TemplateContext =
  tc_Version :: string
  tc_Tag :: string
  tc_OS :: string
  tc_Arch :: string
  tc_Repo :: string
  tc_Name :: string

text \<open>
  \<^verbatim>\<open>strings.NewReplacer(...).Replace\<close>: one pass from the left; at each position the
  first pair (in argument order) whose placeholder starts there is replaced and the scan
  goes on after it, without looking at the replacement again.
\<close>

fun firstMatch :: "(string \<times> string) list \<Rightarrow> string \<Rightarrow> (string \<times> string) option" where
  "firstMatch [] s = None"
| "firstMatch ((old, new) # ps) s =
     (if HasPrefix s old then Some (old, new) else firstMatch ps s)"

fun replaceAll :: "nat \<Rightarrow> (string \<times> string) list \<Rightarrow> string \<Rightarrow> string" where
  "replaceAll skip ps [] = []"
| "replaceAll skip ps (c # cs) =
     (if 0 < skip then replaceAll (skip - 1) ps cs
      else case firstMatch ps (c # cs) of
             Some (old, new) \<Rightarrow> new @ replaceAll (length old - 1) ps cs
           | None \<Rightarrow> c # replaceAll 0 ps cs)"

definition ExpandTemplate :: "string \<Rightarrow> TemplateContext \<Rightarrow> string" where
  "ExpandTemplate input ctx =
     replaceAll 0
       [(''{version}'', tc_Version ctx), (''{tag}'', tc_Tag ctx), (''{os}'', tc_OS ctx),
        (''{arch}'', tc_Arch ctx), (''{repo}'', tc_Repo ctx), (''{name}'', tc_Name ctx)]
       input"

text \<open>\<^verbatim>\<open>Validate\<close>: the first missing field of the first bad action, with its index.\<close>

definition validateAction :: "nat \<Rightarrow> Action \<Rightarrow> error option" where
  "validateAction i act =
     (case act of
        ActAsset a \<Rightarrow>
          if aa_Name a = [] \<and> aa_Pattern a = [] then
            Some (ErrInvalidAction i ''asset.name or pattern is required'')
          else if aa_Target a = [] then Some (ErrInvalidAction i ''asset.target is required'')
          else None
      | ActURL a \<Rightarrow>
          if ua_URL a = [] then Some (ErrInvalidAction i ''url.url is required'')
          else if ua_Target a = [] then Some (ErrInvalidAction i ''url.target is required'')
          else None
      | ActFile a \<Rightarrow>
          if fa_Path a = [] then Some (ErrInvalidAction i ''file.path is required'')
          else if fa_Target a = [] then Some (ErrInvalidAction i ''file.target is required'')
          else None
      | ActSymlink a \<Rightarrow>
          if sa_Target a = [] \<or> sa_To a = [] then
            Some (ErrInvalidAction i ''symlink.target and to are required'')
          else None
      | ActExtract a \<Rightarrow>
          if ef_Type (ea_From a) = [] then
            Some (ErrInvalidAction i ''extract.from.type is required'')
          else if ef_Type (ea_From a) = ''asset''
                  \<and> ef_Name (ea_From a) = [] \<and> ef_Pattern (ea_From a) = [] then
            Some (ErrInvalidAction i ''extract.from.name or pattern is required'')
          else if ef_Type (ea_From a) = ''url'' \<and> ef_URL (ea_From a) = [] then
            Some (ErrInvalidAction i ''extract.from.url is required'')
          else if ef_Type (ea_From a) = ''file'' \<and> ef_Path (ea_From a) = [] then
            Some (ErrInvalidAction i ''extract.from.path is required'')
          else if ef_Type (ea_From a) \<notin> {''asset'', ''url'', ''file''} then
            Some (ErrInvalidAction i ''extract.from.type is unsupported'')
          else if ea_TargetDir a = [] then
            Some (ErrInvalidAction i ''extract.targetDir is required'')
          else None
      | ActMkdir a \<Rightarrow>
          if ma_Path a = [] then Some (ErrInvalidAction i ''mkdir.path is required'')
          else None)"

fun validateActions :: "nat \<Rightarrow> Action list \<Rightarrow> error option" where
  "validateActions i [] = None"
| "validateActions i (a # as) =
     (case validateAction i a of
        Some e \<Rightarrow> Some e
      | None \<Rightarrow> validateActions (Suc i) as)"

definition Validate :: "Manifest \<Rightarrow> error option" where
  "Validate m =
     (if mf_Name m = [] then Some (ErrInvalidManifest ''manifest name is required'')
      else validateActions 0 (mf_Install m))"

section \<open>internal/state: receipts and the installed index\<close>

record InstalledEntry =
  ie_Version :: string
  ie_Receipt :: string
  ie_InstalledAt :: string

text \<open>
  The \<^verbatim>\<open>Installed\<close> map is a list of pairs with one pair per name; the order of the list
  is the order in which a \<^verbatim>\<open>range\<close> over the map visits it, which Go leaves open.
\<close>

record InstalledState =
  is_Schema :: int
  is_Installed :: "(string \<times> InstalledEntry) list"

record ReceiptSource =
  rs_Kind :: string
  rs_Repo :: string
  rs_Tag :: string
  rs_ReleaseID :: int

record Platform =
  pf_OS :: string
  pf_Arch :: string

record Artifact =
  art_Type :: string
  art_Name :: string
  art_URL :: string
  art_SHA256 :: string
  art_Size :: int

record ReceiptFile =
  rf_Path :: string
  rf_Type :: string
  rf_Mode :: int
  rf_SHA256 :: string
  rf_To :: string
  rf_Preserve :: bool

record Receipt =
  rc_Schema :: int
  rc_Name :: string
  rc_Source :: ReceiptSource
  rc_Platform :: Platform
  rc_Artifacts :: "Artifact list"
  rc_Files :: "ReceiptFile list"

text \<open>The zero value \<^verbatim>\<open>state.Receipt{}\<close>, returned beside every error and by a dry run.\<close>

definition Receipt0 :: Receipt where
  "Receipt0 =
     \<lparr>rc_Schema = 0, rc_Name = [],
      rc_Source = \<lparr>rs_Kind = [], rs_Repo = [], rs_Tag = [], rs_ReleaseID = 0\<rparr>,
      rc_Platform = \<lparr>pf_OS = [], pf_Arch = []\<rparr>, rc_Artifacts = [], rc_Files = []\<rparr>"

text \<open>A file whose content the program decodes (YAML or JSON): the decoded value, or not decodable.\<close>

datatype 'a stored = Undecodable | Decoded 'a

section \<open>The file system\<close>

text \<open>
  A node of the tree under the root: a regular file with its bytes and permission bits, a
  symbolic link with its destination, or a directory. The tree is a list of paths with
  their nodes, one pair per path; \<^verbatim>\<open>/\<close> and \<^verbatim>\<open>.\<close> are directories that always exist.
  Paths are compared as cleaned strings: a symbolic link is followed when it is the last
  element of a path, not inside one.
\<close>

datatype node = File string int | Symlink string | Directory

type_synonym disk = "(string \<times> node) list"

text \<open>
  The system the manager runs on: the tree; the files it decodes, by path (manifests,
  receipts, the installed index), where encoding and decoding give the value back; the
  download cache, by path; and the paths on which the operating system refuses a change
  (permissions, an immutable file, a read-only file system). The decoded files and the
  cache are kept apart from the tree, and an operation on the tree leaves them as they
  are: the model covers packages whose targets and receipt paths lie outside the
  manager's own directories, and says nothing of one that writes or deletes there.
\<close>

record world =
  w_nodes :: disk
  w_manifests :: "string \<rightharpoonup> Manifest stored"
  w_receipts :: "string \<rightharpoonup> Receipt stored"
  w_index :: "string \<rightharpoonup> InstalledState stored"
  w_cache :: "string \<rightharpoonup> string"
  w_refused :: "string \<Rightarrow> bool"

section \<open>Loading manifests, receipts and the index\<close>

text \<open>
  \<^verbatim>\<open>Load\<close>, over the manifest files of the system: a missing name becomes the base name
  of the manifest's directory.
\<close>

definition Load :: "world \<Rightarrow> string \<Rightarrow> error + Manifest" where
  "Load w path =
     (case w_manifests w path of
        None \<Rightarrow> Inl (ErrNotExist path)
      | Some Undecodable \<Rightarrow> Inl (ErrDecode path)
      | Some (Decoded m0) \<Rightarrow>
          let m1 = m0\<lparr>mf_Path := path\<rparr>;
              m = (if mf_Name m1 = [] then m1\<lparr>mf_Name := Base (Dir path)\<rparr> else m1)
          in case Validate m of
               Some e \<Rightarrow> Inl e
             | None \<Rightarrow> Inr m)"

definition PackageDir :: "Manifest \<Rightarrow> string" where
  "PackageDir m = Dir (mf_Path m)"

definition ReceiptPath :: "string \<Rightarrow> string \<Rightarrow> string" where
  "ReceiptPath stateDir name = Join [stateDir, ''receipts'', name @ ''.json'']"

definition InstalledPath :: "string \<Rightarrow> string" where
  "InstalledPath stateDir = Join [stateDir, ''installed.json'']"

definition LoadInstalled :: "world \<Rightarrow> string \<Rightarrow> error + InstalledState" where
  "LoadInstalled w path =
     (case w_index w path of
        None \<Rightarrow> Inr \<lparr>is_Schema = 1, is_Installed = []\<rparr>
      | Some Undecodable \<Rightarrow> Inl (ErrDecode path)
      | Some (Decoded s) \<Rightarrow> Inr (if is_Schema s = 0 then s\<lparr>is_Schema := 1\<rparr> else s))"

definition SaveInstalled :: "world \<Rightarrow> string \<Rightarrow> InstalledState \<Rightarrow> error + world" where
  "SaveInstalled w path s0 =
     (let s = (if is_Schema s0 = 0 then s0\<lparr>is_Schema := 1\<rparr> else s0) in
      if w_refused w path then Inl (ErrOS ''write'' path)
      else Inr (w\<lparr>w_index := (w_index w)(path \<mapsto> Decoded s)\<rparr>))"

definition LoadReceipt :: "world \<Rightarrow> string \<Rightarrow> error + Receipt" where
  "LoadReceipt w path =
     (case w_receipts w path of
        None \<Rightarrow> Inl (ErrNotExist path)
      | Some Undecodable \<Rightarrow> Inl (ErrDecode path)
      | Some (Decoded r) \<Rightarrow> Inr (if rc_Schema r = 0 then r\<lparr>rc_Schema := 1\<rparr> else r))"

definition SaveReceipt :: "world \<Rightarrow> string \<Rightarrow> Receipt \<Rightarrow> error + world" where
  "SaveReceipt w path r0 =
     (let r = (if rc_Schema r0 = 0 then r0\<lparr>rc_Schema := 1\<rparr> else r0) in
      if w_refused w path then Inl (ErrOS ''write'' path)
      else Inr (w\<lparr>w_receipts := (w_receipts w)(path \<mapsto> Decoded r)\<rparr>))"

text \<open>\<^verbatim>\<open>installed.Installed[name] = entry\<close> and \<^verbatim>\<open>delete(installed.Installed, name)\<close>.\<close>

fun setEntry :: "string \<Rightarrow> InstalledEntry \<Rightarrow> (string \<times> InstalledEntry) list
    \<Rightarrow> (string \<times> InstalledEntry) list" where
  "setEntry name e [] = [(name, e)]"
| "setEntry name e ((n, x) # rest) =
     (if n = name then (name, e) # rest else (n, x) # setEntry name e rest)"


text \<open>
  \<^verbatim>\<open>RecordInstall\<close> returns the new index beside the error of saving it; its callers drop
  the index. \<open>now\<close> is \<^verbatim>\<open>time.Now().Format(time.RFC3339)\<close>.
\<close>

definition RecordInstall :: "string \<Rightarrow> world \<Rightarrow> string \<Rightarrow> string \<Rightarrow> string \<Rightarrow> error + world" where
  "RecordInstall now w stateDir name version =
     (case LoadInstalled w (InstalledPath stateDir) of
        Inl e \<Rightarrow> Inl e
      | Inr installed \<Rightarrow>
          SaveInstalled w (InstalledPath stateDir)
            (installed\<lparr>is_Installed :=
               setEntry name
                 \<lparr>ie_Version = version, ie_Receipt = Join [''receipts'', name @ ''.json''],
                  ie_InstalledAt = now\<rparr>
                 (is_Installed installed)\<rparr>))"


section \<open>internal/ghpm: the manager\<close>

record Config =
  cfg_PackagesDir :: string
  cfg_StateDir :: string
  cfg_CacheDir :: string

record Manager =
  m_Config :: Config
  m_Root :: string

definition PackagesDir :: "Manager \<Rightarrow> string" where
  "PackagesDir m = Join [m_Root m, cfg_PackagesDir (m_Config m)]"

definition StateDir :: "Manager \<Rightarrow> string" where
  "StateDir m = Join [m_Root m, cfg_StateDir (m_Config m)]"

definition CacheDir :: "Manager \<Rightarrow> string" where
  "CacheDir m = Join [m_Root m, cfg_CacheDir (m_Config m)]"

definition LoadManifest :: "world \<Rightarrow> Manager \<Rightarrow> string \<Rightarrow> error + Manifest" where
  "LoadManifest w m name = Load w (Join [PackagesDir m, name, ''package.yaml''])"

definition resolveVersion :: "net \<Rightarrow> Manifest \<Rightarrow> string \<Rightarrow> error + string \<times> Release" where
  "resolveVersion nw mf version =
     (if src_Kind (mf_Source mf) = [] then Inr (version, Release0)
      else if src_Kind (mf_Source mf) = ''http'' \<and> version = [] then Inr ([], Release0)
      else case NewResolver (src_Kind (mf_Source mf)) of
             Inl e \<Rightarrow> Inl e
           | Inr resolver \<Rightarrow>
               (case ResolveRelease nw resolver (src_Repo (mf_Source mf)) version of
                  Inl e \<Rightarrow> Inl e
                | Inr release \<Rightarrow> Inr (rel_Tag release, release)))"

section \<open>What the program takes from outside\<close>

text \<open>
  An entry of a tar archive (\<^verbatim>\<open>Typeflag\<close> is a byte: \<^verbatim>\<open>'0'\<close> regular, \<^verbatim>\<open>NUL\<close> regular in the
  old format, \<^verbatim>\<open>'5'\<close> directory) and of a zip archive (whose body may fail to open).
\<close>

record TarEntry =
  te_Name :: string
  te_Typeflag :: char
  te_Perm :: int
  te_Body :: string

record ZipEntry =
  ze_Name :: string
  ze_IsDir :: bool
  ze_Perm :: int
  ze_Body :: "error + string"

definition TypeReg :: char where "TypeReg = CHR ''0''"
definition TypeRegA :: char where "TypeRegA = CHR 0x00"
definition TypeDir :: char where "TypeDir = CHR ''5''"

text \<open>
  Everything the manager gets from its environment and the standard library and that is
  not a function of the tree:
  the network; the platform; the clock; whether \<^verbatim>\<open>flock\<close> succeeds; the name
  \<^verbatim>\<open>os.MkdirTemp\<close> picks; SHA-256 as hexadecimal text; \<^verbatim>\<open>fmt.Sscanf(_, "%o", _)\<close>;
  \<^verbatim>\<open>regexp.Compile\<close> (the matcher of a pattern that compiles); the \<^verbatim>\<open>ok\<close> of
  \<^verbatim>\<open>filepath.Match\<close>; the entries of the archive at a path, a tar archive possibly ending
  in a read error; the status and body of an HTTP GET; the path of a URL that parses;
  and what a shell command of a hook does to the system.
\<close>

record env =
  env_net :: net
  env_GOOS :: string
  env_GOARCH :: string
  env_now :: string
  env_flock :: "error option"
  env_MkdirTemp :: "string \<Rightarrow> string \<Rightarrow> error + string"
  env_sha256 :: "string \<Rightarrow> string"
  env_scanOctal :: "string \<Rightarrow> int"
  env_regexp :: "string \<Rightarrow> (string \<Rightarrow> bool) option"
  env_Match :: "string \<Rightarrow> string \<Rightarrow> bool"
  env_tar :: "string \<Rightarrow> string \<Rightarrow> error + TarEntry list \<times> error option"
  env_zip :: "string \<Rightarrow> error + ZipEntry list"
  env_httpGet :: "string \<Rightarrow> error + int \<times> string"
  env_urlPath :: "string \<Rightarrow> string option"
  env_sh :: "string \<Rightarrow> world \<Rightarrow> world"

section \<open>Standard library: package os on the tree\<close>

definition nodeAt :: "disk \<Rightarrow> string \<Rightarrow> node option" where
  "nodeAt d p = (if p = ''/'' \<or> p = ''.'' then Some Directory else map_of d p)"

text \<open>\<open>under p q\<close>: the path \<open>q\<close> lies strictly below the directory \<open>p\<close>.\<close>

definition under :: "string \<Rightarrow> string \<Rightarrow> bool" where
  "under p q = (q \<noteq> p \<and> HasPrefix q (if p = ''/'' then p else p @ ''/''))"

definition hasChild :: "disk \<Rightarrow> string \<Rightarrow> bool" where
  "hasChild d p = list_ex (\<lambda>e. under p (fst e)) d"

definition unlink :: "disk \<Rightarrow> string \<Rightarrow> disk" where
  "unlink d p = filter (\<lambda>e. fst e \<noteq> p) d"

definition putNode :: "world \<Rightarrow> string \<Rightarrow> node \<Rightarrow> world" where
  "putNode w p n = w\<lparr>w_nodes := (p, n) # unlink (w_nodes w) p\<rparr>"

text \<open>
  Following the symbolic links at a path, at most 40 of them: the path reached and the
  node there, if any; \<open>None\<close> when the links do not end (\<^verbatim>\<open>ELOOP\<close>).
\<close>

fun follow :: "nat \<Rightarrow> disk \<Rightarrow> string \<Rightarrow> (string \<times> node option) option" where
  "follow 0 d p = None"
| "follow (Suc k) d p =
     (case nodeAt d p of
        Some (Symlink t) \<Rightarrow> follow k d (if HasPrefix t ''/'' then Clean t else Join [Dir p, t])
      | r \<Rightarrow> Some (p, r))"

text \<open>\<^verbatim>\<open>os.Lstat\<close> and \<^verbatim>\<open>os.Stat\<close>: \<open>None\<close> is an error, the only thing the callers test.\<close>

definition os_Lstat :: "world \<Rightarrow> string \<Rightarrow> node option" where
  "os_Lstat w p = nodeAt (w_nodes w) p"

definition os_Stat :: "world \<Rightarrow> string \<Rightarrow> node option" where
  "os_Stat w p = (case follow 40 (w_nodes w) p of Some (q, Some n) \<Rightarrow> Some n | _ \<Rightarrow> None)"

text \<open>\<^verbatim>\<open>os.Remove\<close>: unlinks a file or a link, removes a directory only when it is empty.\<close>

definition os_Remove :: "world \<Rightarrow> string \<Rightarrow> error + world" where
  "os_Remove w p =
     (case nodeAt (w_nodes w) p of
        None \<Rightarrow> Inl (ErrNotExist p)
      | Some n \<Rightarrow>
          if p = ''/'' \<or> p = ''.'' then Inl (ErrOS ''EBUSY'' p)
          else if w_refused w p then Inl (ErrOS ''EPERM'' p)
          else if n = Directory \<and> hasChild (w_nodes w) p then Inl (ErrOS ''ENOTEMPTY'' p)
          else Inr (w\<lparr>w_nodes := unlink (w_nodes w) p\<rparr>))"

definition os_Mkdir :: "world \<Rightarrow> string \<Rightarrow> error + world" where
  "os_Mkdir w p =
     (if nodeAt (w_nodes w) p \<noteq> None then Inl (ErrOS ''EEXIST'' p)
      else if os_Stat w (Dir p) \<noteq> Some Directory then Inl (ErrNotExist p)
      else if w_refused w p then Inl (ErrOS ''EPERM'' p)
      else Inr (putNode w p Directory))"

text \<open>The path and each of its ancestors below the root, the shortest first.\<close>

definition pathChain :: "string \<Rightarrow> string list" where
  "pathChain p =
     (let cs = filter (\<lambda>c. c \<noteq> []) (Split CHR ''/'' p);
          pre = (if HasPrefix p ''/'' then ''/'' else [])
      in map (\<lambda>k. pre @ JoinWith ''/'' (take k cs)) [1..<Suc (length cs)])"

fun mkdirChain :: "world \<Rightarrow> string list \<Rightarrow> error + world" where
  "mkdirChain w [] = Inr w"
| "mkdirChain w (a # as) =
     (case os_Stat w a of
        Some Directory \<Rightarrow> mkdirChain w as
      | Some _ \<Rightarrow> Inl (ErrOS ''ENOTDIR'' a)
      | None \<Rightarrow>
          (case os_Mkdir w a of
             Inl e \<Rightarrow> Inl e
           | Inr w' \<Rightarrow> mkdirChain w' as))"

text \<open>\<^verbatim>\<open>os.MkdirAll\<close>: the directory and every missing parent; nothing when it is there.\<close>

definition os_MkdirAll :: "world \<Rightarrow> string \<Rightarrow> error + world" where
  "os_MkdirAll w p = mkdirChain w (pathChain p)"

text \<open>
  \<^verbatim>\<open>os.Create\<close>, the copy into the file and its \<^verbatim>\<open>Close\<close>, as one step: an existing file
  keeps its permission bits, a new one gets \<^verbatim>\<open>0644\<close> (\<^verbatim>\<open>0666\<close> under the usual umask).
\<close>

definition os_WriteFile :: "world \<Rightarrow> string \<Rightarrow> string \<Rightarrow> error + world" where
  "os_WriteFile w p content =
     (case follow 40 (w_nodes w) p of
        None \<Rightarrow> Inl (ErrOS ''ELOOP'' p)
      | Some (q, Some (File c perm)) \<Rightarrow>
          if w_refused w q then Inl (ErrOS ''EPERM'' q) else Inr (putNode w q (File content perm))
      | Some (q, Some _) \<Rightarrow> Inl (ErrOS ''EISDIR'' q)
      | Some (q, None) \<Rightarrow>
          if os_Stat w (Dir q) \<noteq> Some Directory then Inl (ErrNotExist q)
          else if w_refused w q then Inl (ErrOS ''EPERM'' q)
          else Inr (putNode w q (File content 420)))"

text \<open>\<^verbatim>\<open>os.OpenFile(p, O_CREATE|O_RDWR, 0644)\<close> and closing it: the file is created when missing.\<close>

definition os_OpenCreate :: "world \<Rightarrow> string \<Rightarrow> error + world" where
  "os_OpenCreate w p =
     (case follow 40 (w_nodes w) p of
        None \<Rightarrow> Inl (ErrOS ''ELOOP'' p)
      | Some (q, Some (File c perm)) \<Rightarrow> Inr w
      | Some (q, Some _) \<Rightarrow> Inl (ErrOS ''EISDIR'' q)
      | Some (q, None) \<Rightarrow>
          if os_Stat w (Dir q) \<noteq> Some Directory then Inl (ErrNotExist q)
          else if w_refused w q then Inl (ErrOS ''EPERM'' q)
          else Inr (putNode w q (File [] 420)))"

definition os_Chmod :: "world \<Rightarrow> string \<Rightarrow> int \<Rightarrow> error + world" where
  "os_Chmod w p perm =
     (case follow 40 (w_nodes w) p of
        Some (q, Some (File c old)) \<Rightarrow>
          if w_refused w q then Inl (ErrOS ''EPERM'' q) else Inr (putNode w q (File c perm))
      | Some (q, Some _) \<Rightarrow> Inr w
      | _ \<Rightarrow> Inl (ErrNotExist p))"

text \<open>
  \<^verbatim>\<open>os.Rename\<close>: replaces a file or link at the new path, a directory only when it is
  empty and the old path is a directory too; a directory moves with everything below it.
\<close>

definition rekey :: "string \<Rightarrow> string \<Rightarrow> string \<times> node \<Rightarrow> string \<times> node" where
  "rekey old new e =
     (if fst e = old then (new, snd e)
      else if under old (fst e) then (new @ drop (length old) (fst e), snd e)
      else e)"

definition os_Rename :: "world \<Rightarrow> string \<Rightarrow> string \<Rightarrow> error + world" where
  "os_Rename w old new =
     (case nodeAt (w_nodes w) old of
        None \<Rightarrow> Inl (ErrNotExist old)
      | Some n \<Rightarrow>
          if os_Stat w (Dir new) \<noteq> Some Directory then Inl (ErrNotExist new)
          else if w_refused w old \<or> w_refused w new then Inl (ErrOS ''EPERM'' new)
          else if nodeAt (w_nodes w) new = Some Directory \<and> n \<noteq> Directory then
            Inl (ErrOS ''EISDIR'' new)
          else if nodeAt (w_nodes w) new = Some Directory \<and> hasChild (w_nodes w) new then
            Inl (ErrOS ''ENOTEMPTY'' new)
          else if nodeAt (w_nodes w) new \<noteq> None \<and> nodeAt (w_nodes w) new \<noteq> Some Directory
                  \<and> n = Directory then
            Inl (ErrOS ''ENOTDIR'' new)
          else if old = new then Inr w
          else Inr (w\<lparr>w_nodes := map (rekey old new) (unlink (w_nodes w) new)\<rparr>))"

definition os_Symlink :: "world \<Rightarrow> string \<Rightarrow> string \<Rightarrow> error + world" where
  "os_Symlink w to p =
     (if nodeAt (w_nodes w) p \<noteq> None then Inl (ErrOS ''EEXIST'' p)
      else if os_Stat w (Dir p) \<noteq> Some Directory then Inl (ErrNotExist p)
      else if w_refused w p then Inl (ErrOS ''EPERM'' p)
      else Inr (putNode w p (Symlink to)))"

text \<open>
  Opening a file and reading it to its end: a regular file of the tree (through links),
  or else a file of the download cache.
\<close>

definition readFile :: "world \<Rightarrow> string \<Rightarrow> error + string" where
  "readFile w p =
     (case os_Stat w p of
        Some (File c perm) \<Rightarrow> Inr c
      | Some _ \<Rightarrow> Inl (ErrOS ''EISDIR'' p)
      | None \<Rightarrow>
          (case w_cache w p of
             Some c \<Rightarrow> Inr c
           | None \<Rightarrow> Inl (ErrNotExist p)))"

subsection \<open>Sequencing calls that change the tree\<close>

text \<open>
  A function that can fail after it has changed the tree returns its error (if any)
  beside the tree it leaves behind. \<open>attempt\<close> is \<^verbatim>\<open>if err := f(); err != nil { return err }\<close>,
  \<open>andThen\<close> goes on only after success, and \<open>ignoring\<close> is \<^verbatim>\<open>_ = f()\<close>.
\<close>

definition attempt :: "world \<Rightarrow> error + world \<Rightarrow> error option \<times> world" where
  "attempt w r = (case r of Inl e \<Rightarrow> (Some e, w) | Inr w' \<Rightarrow> (None, w'))"

definition andThen :: "error option \<times> world \<Rightarrow> (world \<Rightarrow> error option \<times> world)
    \<Rightarrow> error option \<times> world" where
  "andThen r f = (case r of (Some e, w) \<Rightarrow> (Some e, w) | (None, w) \<Rightarrow> f w)"

definition ignoring :: "world \<Rightarrow> error + world \<Rightarrow> world" where
  "ignoring w r = (case r of Inl e \<Rightarrow> w | Inr w' \<Rightarrow> w')"

definition isNotExist :: "error \<Rightarrow> bool" where
  "isNotExist e = (case e of ErrNotExist p \<Rightarrow> True | _ \<Rightarrow> False)"

section \<open>internal/ghpm: lock, directory skeleton, remove\<close>

text \<open>
  \<^verbatim>\<open>lock\<close>: the lock file's directory and the lock file are created when missing, then
  the file is locked. \<^verbatim>\<open>unlock\<close> leaves the tree as it is.
\<close>

definition lock :: "env \<Rightarrow> Manager \<Rightarrow> world \<Rightarrow> error option \<times> world" where
  "lock ev m w =
     (let lockPath = Join [m_Root m, ''var/lock/ghpm.lock''] in
      andThen (attempt w (os_MkdirAll w (Dir lockPath))) (\<lambda>w1.
      andThen (attempt w1 (os_OpenCreate w1 lockPath)) (\<lambda>w2.
      (env_flock ev, w2))))"

fun mkdirAllEach :: "world \<Rightarrow> string list \<Rightarrow> error option \<times> world" where
  "mkdirAllEach w [] = (None, w)"
| "mkdirAllEach w (dir # dirs) =
     (case os_MkdirAll w dir of
        Inl e \<Rightarrow> (Some e, w)
      | Inr w' \<Rightarrow> mkdirAllEach w' dirs)"

definition EnsureDirs :: "Config \<Rightarrow> string \<Rightarrow> world \<Rightarrow> error option \<times> world" where
  "EnsureDirs c root w =
     mkdirAllEach w
       [Join [root, cfg_PackagesDir c],
        Join [root, cfg_StateDir c],
        Join [root, cfg_StateDir c, ''work''],
        Join [root, cfg_CacheDir c, ''downloads''],
        Join [root, cfg_StateDir c, ''receipts'']]"




section \<open>internal/ghpm: archives\<close>

definition stripComponents :: "string \<Rightarrow> int \<Rightarrow> string" where
  "stripComponents path count =
     (if count \<le> 0 then Clean path
      else
        let parts = Split CHR ''/'' (Clean path) in
        if int (length parts) \<le> count then []
        else Join (drop (nat count) parts))"

text \<open>
  The two loops of \<^verbatim>\<open>shouldInclude\<close>; \<open>match pattern name\<close> is the \<^verbatim>\<open>ok\<close> of
  \<^verbatim>\<open>filepath.Match(pattern, name)\<close>, whose error is dropped.
\<close>

fun pickLoop :: "(string \<Rightarrow> string \<Rightarrow> bool) \<Rightarrow> string list \<Rightarrow> string \<Rightarrow> bool" where
  "pickLoop match [] name = False"
| "pickLoop match (p # ps) name = (if match p name then True else pickLoop match ps name)"

fun omitLoop :: "(string \<Rightarrow> string \<Rightarrow> bool) \<Rightarrow> string list \<Rightarrow> string \<Rightarrow> bool" where
  "omitLoop match [] name = True"
| "omitLoop match (p # ps) name = (if match p name then False else omitLoop match ps name)"

definition shouldInclude :: "(string \<Rightarrow> string \<Rightarrow> bool) \<Rightarrow> string \<Rightarrow> string list \<Rightarrow> string list \<Rightarrow> bool" where
  "shouldInclude match name pick omit =
     (if 0 < length pick then pickLoop match pick name
      else if 0 < length omit then omitLoop match omit name
      else True)"

definition inferArchiveFormat :: "string \<Rightarrow> string" where
  "inferArchiveFormat name =
     (if HasSuffix name ''.tar.gz'' \<or> HasSuffix name ''.tgz'' then ''tar.gz''
      else if HasSuffix name ''.tar.xz'' then ''tar.xz''
      else if HasSuffix name ''.zip'' then ''zip''
      else [])"

definition formatHint :: "string \<Rightarrow> string \<Rightarrow> string" where
  "formatHint hintName path = (if hintName \<noteq> [] then hintName else path)"

text \<open>The first lines of \<^verbatim>\<open>extractArchive\<close> and of \<^verbatim>\<open>listArchiveFiles\<close>, which are the same.\<close>

definition archiveFormat :: "ExtractAction \<Rightarrow> string \<Rightarrow> string \<Rightarrow> error + string" where
  "archiveFormat action hintName path =
     (if ea_Format action = [] \<or> ea_Format action = ''auto'' then
        (if inferArchiveFormat hintName \<noteq> [] then Inr (inferArchiveFormat hintName)
         else if inferArchiveFormat path \<noteq> [] then Inr (inferArchiveFormat path)
         else Inl (ErrArchiveFormat (formatHint hintName path)))
      else Inr (ea_Format action))"

fun listTarLoop :: "(string \<Rightarrow> string \<Rightarrow> bool) \<Rightarrow> ExtractAction \<Rightarrow> TarEntry list
    \<Rightarrow> string list \<Rightarrow> string list \<Rightarrow> string list \<times> string list" where
  "listTarLoop match action [] files skipped = (files, skipped)"
| "listTarLoop match action (hdr # rest) files skipped =
     (let name = stripComponents (te_Name hdr) (ea_StripComponents action) in
      if name = [] then listTarLoop match action rest files skipped
      else if te_Typeflag hdr = TypeReg \<or> te_Typeflag hdr = TypeRegA then
        (if shouldInclude match name (ea_Pick action) (ea_Omit action)
         then listTarLoop match action rest (files @ [name]) skipped
         else listTarLoop match action rest files (skipped @ [name]))
      else listTarLoop match action rest files skipped)"

definition listTarFiles :: "env \<Rightarrow> string \<Rightarrow> ExtractAction \<Rightarrow> string
    \<Rightarrow> error + string list \<times> string list" where
  "listTarFiles ev path action compress =
     (case env_tar ev path compress of
        Inl e \<Rightarrow> Inl e
      | Inr (entries, Some e) \<Rightarrow> Inl e
      | Inr (entries, None) \<Rightarrow> Inr (listTarLoop (env_Match ev) action entries [] []))"

fun listZipLoop :: "(string \<Rightarrow> string \<Rightarrow> bool) \<Rightarrow> ExtractAction \<Rightarrow> ZipEntry list
    \<Rightarrow> string list \<Rightarrow> string list \<Rightarrow> string list \<times> string list" where
  "listZipLoop match action [] files skipped = (files, skipped)"
| "listZipLoop match action (f # rest) files skipped =
     (let name = stripComponents (ze_Name f) (ea_StripComponents action) in
      if name = [] then listZipLoop match action rest files skipped
      else if ze_IsDir f then listZipLoop match action rest files skipped
      else if shouldInclude match name (ea_Pick action) (ea_Omit action)
        then listZipLoop match action rest (files @ [name]) skipped
        else listZipLoop match action rest files (skipped @ [name]))"

definition listZipFiles :: "env \<Rightarrow> string \<Rightarrow> ExtractAction \<Rightarrow> error + string list \<times> string list" where
  "listZipFiles ev path action =
     (case env_zip ev path of
        Inl e \<Rightarrow> Inl e
      | Inr entries \<Rightarrow> Inr (listZipLoop (env_Match ev) action entries [] []))"

definition listArchiveFiles :: "env \<Rightarrow> string \<Rightarrow> string \<Rightarrow> ExtractAction
    \<Rightarrow> error + string list \<times> string list" where
  "listArchiveFiles ev path hintName action =
     (case archiveFormat action hintName path of
        Inl e \<Rightarrow> Inl e
      | Inr format \<Rightarrow>
          if format = ''tar.gz'' then listTarFiles ev path action ''gzip''
          else if format = ''tar.xz'' then listTarFiles ev path action ''xz''
          else if format = ''zip'' then listZipFiles ev path action
          else Inl (ErrArchiveFormat format))"

text \<open>Writing one regular file of an archive: parent directories, the bytes, the mode.\<close>

definition extractFile :: "world \<Rightarrow> string \<Rightarrow> string \<Rightarrow> int \<Rightarrow> error option \<times> world" where
  "extractFile w target body perm =
     andThen (attempt w (os_MkdirAll w (Dir target))) (\<lambda>w1.
     andThen (attempt w1 (os_WriteFile w1 target body)) (\<lambda>w2.
     attempt w2 (os_Chmod w2 target perm)))"

fun extractTarLoop :: "(string \<Rightarrow> string \<Rightarrow> bool) \<Rightarrow> string \<Rightarrow> ExtractAction
    \<Rightarrow> TarEntry list \<Rightarrow> error option \<Rightarrow> world \<Rightarrow> error option \<times> world" where
  "extractTarLoop match targetDir action [] tailErr w = (tailErr, w)"
| "extractTarLoop match targetDir action (hdr # rest) tailErr w =
     (let name = stripComponents (te_Name hdr) (ea_StripComponents action) in
      if name = [] then extractTarLoop match targetDir action rest tailErr w
      else if \<not> shouldInclude match name (ea_Pick action) (ea_Omit action) then
        extractTarLoop match targetDir action rest tailErr w
      else
        let target = Join [targetDir, name] in
        if te_Typeflag hdr = TypeDir then
          andThen (attempt w (os_MkdirAll w target))
            (extractTarLoop match targetDir action rest tailErr)
        else if te_Typeflag hdr = TypeReg then
          andThen (extractFile w target (te_Body hdr) (te_Perm hdr))
            (extractTarLoop match targetDir action rest tailErr)
        else extractTarLoop match targetDir action rest tailErr w)"

definition extractTar :: "env \<Rightarrow> world \<Rightarrow> string \<Rightarrow> string \<Rightarrow> string \<Rightarrow> ExtractAction
    \<Rightarrow> string \<Rightarrow> error option \<times> world" where
  "extractTar ev w path workDir targetDir action compress =
     (case env_tar ev path compress of
        Inl e \<Rightarrow> (Some e, w)
      | Inr (entries, tailErr) \<Rightarrow>
          extractTarLoop (env_Match ev) targetDir action entries tailErr w)"

fun extractZipLoop :: "(string \<Rightarrow> string \<Rightarrow> bool) \<Rightarrow> string \<Rightarrow> ExtractAction
    \<Rightarrow> ZipEntry list \<Rightarrow> world \<Rightarrow> error option \<times> world" where
  "extractZipLoop match targetDir action [] w = (None, w)"
| "extractZipLoop match targetDir action (f # rest) w =
     (let name = stripComponents (ze_Name f) (ea_StripComponents action) in
      if name = [] then extractZipLoop match targetDir action rest w
      else if \<not> shouldInclude match name (ea_Pick action) (ea_Omit action) then
        extractZipLoop match targetDir action rest w
      else
        let target = Join [targetDir, name] in
        if ze_IsDir f then
          andThen (attempt w (os_MkdirAll w target)) (extractZipLoop match targetDir action rest)
        else
          andThen (attempt w (os_MkdirAll w (Dir target))) (\<lambda>w1.
            case ze_Body f of
              Inl e \<Rightarrow> (Some e, w1)
            | Inr body \<Rightarrow>
                andThen (attempt w1 (os_WriteFile w1 target body)) (\<lambda>w2.
                andThen (attempt w2 (os_Chmod w2 target (ze_Perm f)))
                  (extractZipLoop match targetDir action rest))))"

definition extractZip :: "env \<Rightarrow> world \<Rightarrow> string \<Rightarrow> string \<Rightarrow> ExtractAction
    \<Rightarrow> error option \<times> world" where
  "extractZip ev w path targetDir action =
     (case env_zip ev path of
        Inl e \<Rightarrow> (Some e, w)
      | Inr entries \<Rightarrow> extractZipLoop (env_Match ev) targetDir action entries w)"

definition extractArchive :: "env \<Rightarrow> world \<Rightarrow> string \<Rightarrow> string \<Rightarrow> string \<Rightarrow> string
    \<Rightarrow> ExtractAction \<Rightarrow> error option \<times> world" where
  "extractArchive ev w path hintName workDir targetDir action =
     (case archiveFormat action hintName path of
        Inl e \<Rightarrow> (Some e, w)
      | Inr format \<Rightarrow>
          if format = ''tar.gz'' then extractTar ev w path workDir targetDir action ''gzip''
          else if format = ''tar.xz'' then extractTar ev w path workDir targetDir action ''xz''
          else if format = ''zip'' then extractZip ev w path targetDir action
          else (Some (ErrArchiveFormat format), w))"

section \<open>internal/ghpm: receipt paths, hashing, atomic replacement\<close>

definition normalizePathForReceipt :: "string \<Rightarrow> string \<Rightarrow> string" where
  "normalizePathForReceipt root target =
     (if root = ''/'' then target
      else
        let trimmed = TrimPrefix target root in
        if trimmed = [] then ''/''
        else if \<not> HasPrefix trimmed ''/'' then ''/'' @ trimmed
        else trimmed)"

definition hashFileWithSize :: "env \<Rightarrow> world \<Rightarrow> string \<Rightarrow> error + string \<times> int" where
  "hashFileWithSize ev w path =
     (case readFile w path of
        Inl e \<Rightarrow> Inl e
      | Inr c \<Rightarrow> Inr (env_sha256 ev c, int (length c)))"

definition parseMode :: "env \<Rightarrow> string \<Rightarrow> int" where
  "parseMode ev val = (if val = [] then 0 else env_scanOctal ev val)"

text \<open>
  The loop of \<^verbatim>\<open>recordExtractedList\<close>. The receipt's file list is shared with the plan
  through a pointer: the step appends to it, also when it fails later on.
\<close>

fun recordExtractedList :: "env \<Rightarrow> string \<Rightarrow> string \<Rightarrow> string list \<Rightarrow> world
    \<Rightarrow> ReceiptFile list \<Rightarrow> error option \<times> ReceiptFile list" where
  "recordExtractedList ev root targetDir [] w receiptFiles = (None, receiptFiles)"
| "recordExtractedList ev root targetDir (name # rest) w receiptFiles =
     (let target = Join [targetDir, name] in
      case os_Stat w target of
        None \<Rightarrow> (Some (ErrNotExist target), receiptFiles)
      | Some Directory \<Rightarrow> recordExtractedList ev root targetDir rest w receiptFiles
      | Some info \<Rightarrow>
          (case hashFileWithSize ev w target of
             Inl e \<Rightarrow> (Some e, receiptFiles)
           | Inr (digest, sz) \<Rightarrow>
               recordExtractedList ev root targetDir rest w
                 (receiptFiles @
                    [\<lparr>rf_Path = normalizePathForReceipt root target, rf_Type = ''file'',
                      rf_Mode = (case info of File c perm \<Rightarrow> perm | _ \<Rightarrow> 0),
                      rf_SHA256 = digest, rf_To = [], rf_Preserve = False\<rparr>])))"

definition installFileAtomic :: "world \<Rightarrow> string \<Rightarrow> string \<Rightarrow> int \<Rightarrow> error option \<times> world" where
  "installFileAtomic w0 target source perm =
     andThen (attempt w0 (os_MkdirAll w0 (Dir target))) (\<lambda>w1.
       let temp = target @ ''.ghpm.new'' in
       case readFile w1 source of
         Inl e \<Rightarrow> (Some e, w1)
       | Inr content \<Rightarrow>
           andThen (attempt w1 (os_WriteFile w1 temp content)) (\<lambda>w2.
           andThen (if perm \<noteq> 0 then attempt w2 (os_Chmod w2 temp perm) else (None, w2)) (\<lambda>w3.
             let backup = target @ ''.ghpm.bak'' in
             andThen (if os_Stat w3 target \<noteq> None
                      then attempt w3 (os_Rename w3 target backup) else (None, w3)) (\<lambda>w4.
               case os_Rename w4 temp target of
                 Inl e \<Rightarrow>
                   (Some e, if os_Stat w4 backup \<noteq> None
                            then ignoring w4 (os_Rename w4 backup target) else w4)
               | Inr w5 \<Rightarrow> (None, ignoring w5 (os_Remove w5 backup))))))"

definition createSymlinkAtomic :: "world \<Rightarrow> string \<Rightarrow> string \<Rightarrow> error option \<times> world" where
  "createSymlinkAtomic w0 target to =
     andThen (attempt w0 (os_MkdirAll w0 (Dir target))) (\<lambda>w1.
       let tmp = target @ ''.ghpm.new'';
           w2 = ignoring w1 (os_Remove w1 tmp) in
       andThen (attempt w2 (os_Symlink w2 to tmp)) (\<lambda>w3.
         let backup = target @ ''.ghpm.bak'' in
         andThen (if os_Lstat w3 target \<noteq> None
                  then attempt w3 (os_Rename w3 target backup) else (None, w3)) (\<lambda>w4.
           case os_Rename w4 tmp target of
             Inl e \<Rightarrow>
               (Some e, if os_Stat w4 backup \<noteq> None
                        then ignoring w4 (os_Rename w4 backup target) else w4)
           | Inr w5 \<Rightarrow> (None, ignoring w5 (os_Remove w5 backup)))))"

section \<open>internal/ghpm: the download cache\<close>

text \<open>
  \<^verbatim>\<open>for _, ch := range name\<close> reads the name rune by rune, as Go decodes UTF-8: a well-formed
  sequence of two to four bytes is one rune, and every byte that starts no such sequence
  is a rune of its own (the replacement character). \<open>runeLen\<close> is the number of bytes of
  the first rune.
\<close>

definition continues :: "char \<Rightarrow> nat \<Rightarrow> nat \<Rightarrow> bool" where
  "continues ch lo hi = (lo \<le> (of_char ch :: nat) \<and> (of_char ch :: nat) \<le> hi)"

fun runeLen :: "string \<Rightarrow> nat" where
  "runeLen [] = 0"
| "runeLen (b0 # rest) =
     (let c = (of_char b0 :: nat) in
      if c < 128 then 1
      else if 194 \<le> c \<and> c \<le> 223 then
        (case rest of b1 # r1 \<Rightarrow> if continues b1 128 191 then 2 else 1 | _ \<Rightarrow> 1)
      else if 224 \<le> c \<and> c \<le> 239 then
        (case rest of
           b1 # b2 # r2 \<Rightarrow>
             if continues b1 (if c = 224 then 160 else 128) (if c = 237 then 159 else 191)
                \<and> continues b2 128 191 then 3 else 1
         | _ \<Rightarrow> 1)
      else if 240 \<le> c \<and> c \<le> 244 then
        (case rest of
           b1 # b2 # b3 # r3 \<Rightarrow>
             if continues b1 (if c = 240 then 144 else 128) (if c = 244 then 143 else 191)
                \<and> continues b2 128 191 \<and> continues b3 128 191 then 4 else 1
         | _ \<Rightarrow> 1)
      else 1)"

text \<open>
  \<^verbatim>\<open>sanitizeFilename\<close> writes a rune of \<^verbatim>\<open>[A-Za-z0-9._-]\<close> as it is and one underscore for
  every other rune. The loop goes through the bytes; \<open>skip\<close> counts the bytes still to
  pass of the rune that was just written.
\<close>

fun sanitizeLoop :: "nat \<Rightarrow> string \<Rightarrow> string" where
  "sanitizeLoop skip [] = []"
| "sanitizeLoop skip (ch # rest) =
     (if 0 < skip then sanitizeLoop (skip - 1) rest
      else
        let c = (of_char ch :: nat) in
        (if (97 \<le> c \<and> c \<le> 122) \<or> (65 \<le> c \<and> c \<le> 90) \<or> (48 \<le> c \<and> c \<le> 57)
            \<or> ch = CHR ''.'' \<or> ch = CHR ''-'' \<or> ch = CHR ''_'' then [ch]
         else ''_'') @ sanitizeLoop (runeLen (ch # rest) - 1) rest)"

definition sanitizeFilename :: "string \<Rightarrow> string" where
  "sanitizeFilename name = sanitizeLoop 0 name"

definition cacheHintName :: "env \<Rightarrow> string \<Rightarrow> string" where
  "cacheHintName ev urlStr =
     (case env_urlPath ev urlStr of
        None \<Rightarrow> []
      | Some pth \<Rightarrow>
          if Base pth = ''.'' \<or> Base pth = ''/'' then [] else sanitizeFilename (Base pth))"

text \<open>
  \<^verbatim>\<open>fetchURL\<close> returns path, digest, size and name hint. A cached file is in the cache
  store (or, for a cache directory that points into the tree, in the tree); a download is
  written to a temporary file and renamed, which is one update of the store.
\<close>

definition fetchURL :: "env \<Rightarrow> Manager \<Rightarrow> world \<Rightarrow> string
    \<Rightarrow> (error + string \<times> string \<times> int \<times> string) \<times> world" where
  "fetchURL ev m w urlStr =
     (let cacheDir = Join [CacheDir m, ''downloads''] in
      case os_MkdirAll w cacheDir of
        Inl e \<Rightarrow> (Inl e, w)
      | Inr w1 \<Rightarrow>
          let name = env_sha256 ev urlStr;
              hintName = cacheHintName ev urlStr;
              cacheName = (if hintName \<noteq> [] then name @ ''-'' @ hintName else name);
              path = Join [cacheDir, cacheName]
          in
          if os_Stat w1 path \<noteq> None \<or> w_cache w1 path \<noteq> None then
            (case hashFileWithSize ev w1 path of
               Inl e \<Rightarrow> (Inl e, w1)
             | Inr (digest, sz) \<Rightarrow> (Inr (path, digest, sz, hintName), w1))
          else
            (case env_httpGet ev urlStr of
               Inl e \<Rightarrow> (Inl e, w1)
             | Inr (status, body) \<Rightarrow>
                 if status \<noteq> 200 then (Inl (ErrDownload urlStr status), w1)
                 else if w_refused w1 path then (Inl (ErrOS ''write'' path), w1)
                 else (Inr (path, env_sha256 ev body, int (length body), hintName),
                       w1\<lparr>w_cache := (w_cache w1)(path \<mapsto> body)\<rparr>)))"

section \<open>internal/source and internal/manifest: choosing an asset\<close>

primrec Contains :: "string \<Rightarrow> string \<Rightarrow> bool" where
  "Contains [] sub = (sub = [])"
| "Contains (c # cs) sub = (HasPrefix (c # cs) sub \<or> Contains cs sub)"

definition MatchPattern :: "env \<Rightarrow> string \<Rightarrow> string \<Rightarrow> bool" where
  "MatchPattern ev name pattern =
     (if pattern = [] then False
      else case env_regexp ev pattern of
             None \<Rightarrow> Contains name pattern
           | Some re \<Rightarrow> re name)"

definition SelectAsset :: "env \<Rightarrow> Release \<Rightarrow> AssetAction \<Rightarrow> error + Asset" where
  "SelectAsset ev release action =
     (if aa_Name action \<noteq> [] then
        (case find (\<lambda>asset. asset_Name asset = aa_Name action) (rel_Assets release) of
           Some asset \<Rightarrow> Inr asset
         | None \<Rightarrow> Inl (ErrAssetNotFound (aa_Name action)))
      else if aa_Pattern action \<noteq> [] then
        (case find (\<lambda>asset. MatchPattern ev (asset_Name asset) (aa_Pattern action))
                (rel_Assets release) of
           Some asset \<Rightarrow> Inr asset
         | None \<Rightarrow> Inl (ErrAssetNotFound (aa_Pattern action)))
      else Inl ErrAssetNeedsNameOrPattern)"

section \<open>internal/ghpm: the plan\<close>

text \<open>
  A step of the plan is a closure \<^verbatim>\<open>func() error\<close> in the code; here it is the call the
  closure makes, with the values it has captured.
\<close>

datatype Step =
    StepMkdirAll string
  | StepSymlink string string
  | StepInstallFile string string int
  | StepExtract string string string string ExtractAction
  | StepRecord string string "string list"

record plan =
  pl_steps :: "Step list"
  pl_targets :: "string list"
  pl_receiptFiles :: "ReceiptFile list"

text \<open>The \<^verbatim>\<open>switch action.From.Type\<close> of \<^verbatim>\<open>buildExtractPlan\<close>: source path and name hint.\<close>

definition extractSource :: "env \<Rightarrow> Manager \<Rightarrow> world \<Rightarrow> Manifest \<Rightarrow> ExtractAction
    \<Rightarrow> TemplateContext \<Rightarrow> (error + string \<times> string) \<times> world" where
  "extractSource ev m w mf action ctx =
     (let from = ea_From action in
      if ef_Type from = ''asset'' then
        (let assetAction =
               \<lparr>aa_Name = ExpandTemplate (ef_Name from) ctx,
                aa_Pattern = ExpandTemplate (ef_Pattern from) ctx,
                aa_Target = [], aa_Mode = [], aa_Preserve = False\<rparr> in
         case NewResolver (src_Kind (mf_Source mf)) of
           Inl e \<Rightarrow> (Inl e, w)
         | Inr resolver \<Rightarrow>
             (case ResolveRelease (env_net ev) resolver (src_Repo (mf_Source mf)) (tc_Tag ctx) of
                Inl e \<Rightarrow> (Inl e, w)
              | Inr release \<Rightarrow>
                  (case SelectAsset ev release assetAction of
                     Inl e \<Rightarrow> (Inl e, w)
                   | Inr asset \<Rightarrow>
                       (case fetchURL ev m w (asset_URL asset) of
                          (Inl e, w') \<Rightarrow> (Inl e, w')
                        | (Inr (local, digest, sz, hint), w') \<Rightarrow> (Inr (local, hint), w')))))
      else if ef_Type from = ''url'' then
        (case fetchURL ev m w (ExpandTemplate (ef_URL from) ctx) of
           (Inl e, w') \<Rightarrow> (Inl e, w')
         | (Inr (local, digest, sz, hint), w') \<Rightarrow> (Inr (local, hint), w'))
      else if ef_Type from = ''file'' then
        (let sourcePath = Join [PackageDir mf, ExpandTemplate (ef_Path from) ctx] in
         (Inr (sourcePath, Base sourcePath), w))
      else (Inl (ErrUnsupportedFrom (ef_Type from)), w))"

text \<open>
  \<^verbatim>\<open>buildExtractPlan\<close>: the targets and the two steps of an extract action (the archive
  name and the skipped names it also returns are only logged).
\<close>

definition buildExtractPlan :: "env \<Rightarrow> Manager \<Rightarrow> world \<Rightarrow> Manifest \<Rightarrow> ExtractAction
    \<Rightarrow> TemplateContext \<Rightarrow> string \<Rightarrow> (error + Step list \<times> string list) \<times> world" where
  "buildExtractPlan ev m w mf action ctx workDir =
     (case extractSource ev m w mf action ctx of
        (Inl e, w') \<Rightarrow> (Inl e, w')
      | (Inr (sourcePath, hintName), w') \<Rightarrow>
          let targetDir = Join [m_Root m, ExpandTemplate (ea_TargetDir action) ctx] in
          case listArchiveFiles ev sourcePath hintName action of
            Inl e \<Rightarrow> (Inl e, w')
          | Inr (files, skipped) \<Rightarrow>
              (Inr ([StepExtract sourcePath hintName workDir targetDir action,
                     StepRecord (m_Root m) targetDir files],
                    map (\<lambda>name. Join [targetDir, name]) files), w'))"

text \<open>One round of the loop of \<^verbatim>\<open>buildPlan\<close>, on the plan and the artifacts so far.\<close>

definition planAction :: "env \<Rightarrow> Manager \<Rightarrow> Manifest \<Rightarrow> Release \<Rightarrow> TemplateContext \<Rightarrow> string
    \<Rightarrow> Action \<Rightarrow> plan \<times> Artifact list \<Rightarrow> world \<Rightarrow> (error + plan \<times> Artifact list) \<times> world" where
  "planAction ev m mf release ctx workDir act acc w =
     (case acc of (pl, artifacts) \<Rightarrow>
      case act of
        ActMkdir action \<Rightarrow>
          let target = Join [m_Root m, ExpandTemplate (ma_Path action) ctx] in
          (Inr (\<lparr>pl_steps = pl_steps pl @ [StepMkdirAll target],
                 pl_targets = pl_targets pl @ [target],
                 pl_receiptFiles = pl_receiptFiles pl @
                   [\<lparr>rf_Path = ExpandTemplate (ma_Path action) ctx, rf_Type = ''dir'',
                     rf_Mode = parseMode ev (ma_Mode action), rf_SHA256 = [], rf_To = [],
                     rf_Preserve = False\<rparr>]\<rparr>, artifacts), w)
      | ActSymlink action \<Rightarrow>
          let target = Join [m_Root m, ExpandTemplate (sa_Target action) ctx];
              to = ExpandTemplate (sa_To action) ctx in
          (Inr (\<lparr>pl_steps = pl_steps pl @ [StepSymlink target to],
                 pl_targets = pl_targets pl @ [target],
                 pl_receiptFiles = pl_receiptFiles pl @
                   [\<lparr>rf_Path = ExpandTemplate (sa_Target action) ctx, rf_Type = ''symlink'',
                     rf_Mode = 0, rf_SHA256 = [], rf_To = to, rf_Preserve = False\<rparr>]\<rparr>,
                artifacts), w)
      | ActFile action \<Rightarrow>
          let src = Join [PackageDir mf, fa_Path action];
              target = Join [m_Root m, ExpandTemplate (fa_Target action) ctx] in
          (case hashFileWithSize ev w src of
             Inl e \<Rightarrow> (Inl e, w)
           | Inr (digest, sz) \<Rightarrow>
               (Inr (\<lparr>pl_steps = pl_steps pl @
                        [StepInstallFile target src (parseMode ev (fa_Mode action))],
                      pl_targets = pl_targets pl @ [target],
                      pl_receiptFiles = pl_receiptFiles pl @
                        [\<lparr>rf_Path = ExpandTemplate (fa_Target action) ctx, rf_Type = ''file'',
                          rf_Mode = parseMode ev (fa_Mode action), rf_SHA256 = digest,
                          rf_To = [], rf_Preserve = fa_Preserve action\<rparr>]\<rparr>,
                     artifacts @
                       [\<lparr>art_Type = ''file'', art_Name = fa_Path action, art_URL = [],
                         art_SHA256 = digest, art_Size = sz\<rparr>]), w))
      | ActURL action \<Rightarrow>
          let urlStr = ExpandTemplate (ua_URL action) ctx;
              target = Join [m_Root m, ExpandTemplate (ua_Target action) ctx] in
          (case fetchURL ev m w urlStr of
             (Inl e, w') \<Rightarrow> (Inl e, w')
           | (Inr (localPath, digest, sz, hint), w') \<Rightarrow>
               (Inr (\<lparr>pl_steps = pl_steps pl @
                        [StepInstallFile target localPath (parseMode ev (ua_Mode action))],
                      pl_targets = pl_targets pl @ [target],
                      pl_receiptFiles = pl_receiptFiles pl @
                        [\<lparr>rf_Path = ExpandTemplate (ua_Target action) ctx, rf_Type = ''file'',
                          rf_Mode = parseMode ev (ua_Mode action), rf_SHA256 = digest,
                          rf_To = [], rf_Preserve = ua_Preserve action\<rparr>]\<rparr>,
                     artifacts @
                       [\<lparr>art_Type = ''url'', art_Name = [], art_URL = urlStr,
                         art_SHA256 = digest, art_Size = sz\<rparr>]), w'))
      | ActAsset action \<Rightarrow>
          (case SelectAsset ev release action of
             Inl e \<Rightarrow> (Inl e, w)
           | Inr asset \<Rightarrow>
               let target = Join [m_Root m, ExpandTemplate (aa_Target action) ctx] in
               (case fetchURL ev m w (asset_URL asset) of
                  (Inl e, w') \<Rightarrow> (Inl e, w')
                | (Inr (localPath, digest, sz, hint), w') \<Rightarrow>
                    (Inr (\<lparr>pl_steps = pl_steps pl @
                             [StepInstallFile target localPath (parseMode ev (aa_Mode action))],
                           pl_targets = pl_targets pl @ [target],
                           pl_receiptFiles = pl_receiptFiles pl @
                             [\<lparr>rf_Path = ExpandTemplate (aa_Target action) ctx,
                               rf_Type = ''file'', rf_Mode = parseMode ev (aa_Mode action),
                               rf_SHA256 = digest, rf_To = [],
                               rf_Preserve = aa_Preserve action\<rparr>]\<rparr>,
                          artifacts @
                            [\<lparr>art_Type = ''asset'', art_Name = asset_Name asset,
                              art_URL = asset_URL asset, art_SHA256 = digest,
                              art_Size = sz\<rparr>]), w')))
      | ActExtract action \<Rightarrow>
          (case buildExtractPlan ev m w mf action ctx workDir of
             (Inl e, w') \<Rightarrow> (Inl e, w')
           | (Inr (steps, targets), w') \<Rightarrow>
               (Inr (pl\<lparr>pl_steps := pl_steps pl @ steps,
                        pl_targets := pl_targets pl @ targets\<rparr>, artifacts), w')))"

fun buildPlanLoop :: "env \<Rightarrow> Manager \<Rightarrow> Manifest \<Rightarrow> Release \<Rightarrow> TemplateContext \<Rightarrow> string
    \<Rightarrow> Action list \<Rightarrow> plan \<times> Artifact list \<Rightarrow> world
    \<Rightarrow> (error + plan \<times> Artifact list) \<times> world" where
  "buildPlanLoop ev m mf release ctx workDir [] acc w = (Inr acc, w)"
| "buildPlanLoop ev m mf release ctx workDir (act # acts) acc w =
     (case planAction ev m mf release ctx workDir act acc w of
        (Inl e, w') \<Rightarrow> (Inl e, w')
      | (Inr acc', w') \<Rightarrow> buildPlanLoop ev m mf release ctx workDir acts acc' w')"

definition buildPlan :: "env \<Rightarrow> Manager \<Rightarrow> Manifest \<Rightarrow> Release \<Rightarrow> TemplateContext \<Rightarrow> string
    \<Rightarrow> world \<Rightarrow> (error + plan \<times> Artifact list) \<times> world" where
  "buildPlan ev m mf release ctx workDir w =
     buildPlanLoop ev m mf release ctx workDir (mf_Install mf)
       (\<lparr>pl_steps = [], pl_targets = [], pl_receiptFiles = []\<rparr>, []) w"

text \<open>Running a step: the tree and the receipt's file list after it, beside its error.\<close>

definition runStep :: "env \<Rightarrow> Step \<Rightarrow> world \<times> ReceiptFile list
    \<Rightarrow> error option \<times> world \<times> ReceiptFile list" where
  "runStep ev step s =
     (case s of (w, receiptFiles) \<Rightarrow>
      case step of
        StepMkdirAll target \<Rightarrow>
          (case attempt w (os_MkdirAll w target) of (err, w') \<Rightarrow> (err, w', receiptFiles))
      | StepSymlink target to \<Rightarrow>
          (case createSymlinkAtomic w target to of (err, w') \<Rightarrow> (err, w', receiptFiles))
      | StepInstallFile target source perm \<Rightarrow>
          (case installFileAtomic w target source perm of (err, w') \<Rightarrow> (err, w', receiptFiles))
      | StepExtract sourcePath hintName workDir targetDir action \<Rightarrow>
          (case extractArchive ev w sourcePath hintName workDir targetDir action of
             (err, w') \<Rightarrow> (err, w', receiptFiles))
      | StepRecord root targetDir files \<Rightarrow>
          (case recordExtractedList ev root targetDir files w receiptFiles of
             (err, receiptFiles') \<Rightarrow> (err, w, receiptFiles')))"

text \<open>\<^verbatim>\<open>for _, step := range plan.steps { if err := step(); err != nil { return ... } }\<close>\<close>

fun runSteps :: "env \<Rightarrow> Step list \<Rightarrow> world \<times> ReceiptFile list
    \<Rightarrow> error option \<times> world \<times> ReceiptFile list" where
  "runSteps ev [] s = (None, s)"
| "runSteps ev (step # steps) s =
     (case runStep ev step s of
        (Some e, s') \<Rightarrow> (Some e, s')
      | (None, s') \<Rightarrow> runSteps ev steps s')"

section \<open>internal/ghpm: ownership and conflicts\<close>

fun ownershipLoop :: "world \<Rightarrow> string \<Rightarrow> (string \<times> InstalledEntry) list
    \<Rightarrow> (string \<rightharpoonup> string) \<Rightarrow> error + (string \<rightharpoonup> string)" where
  "ownershipLoop w stateDir [] ownership = Inr ownership"
| "ownershipLoop w stateDir ((name, entry) # rest) ownership =
     (case LoadReceipt w (Join [stateDir, ie_Receipt entry]) of
        Inl e \<Rightarrow> if isNotExist e then ownershipLoop w stateDir rest ownership else Inl e
      | Inr receipt \<Rightarrow>
          ownershipLoop w stateDir rest
            (foldl (\<lambda>own f. own(rf_Path f \<mapsto> name)) ownership (rc_Files receipt)))"

definition buildOwnership :: "world \<Rightarrow> Manager \<Rightarrow> error + (string \<rightharpoonup> string)" where
  "buildOwnership w m =
     (case LoadInstalled w (InstalledPath (StateDir m)) of
        Inl e \<Rightarrow> Inl e
      | Inr installed \<Rightarrow> ownershipLoop w (StateDir m) (is_Installed installed) Map.empty)"

definition okOwned :: "(string \<rightharpoonup> string) \<Rightarrow> string \<Rightarrow> string \<Rightarrow> bool" where
  "okOwned ownership path pkg =
     (case ownership path of Some owner \<Rightarrow> owner = pkg | None \<Rightarrow> False)"

fun checkConflictsLoop :: "world \<Rightarrow> string \<Rightarrow> (string \<rightharpoonup> string) \<Rightarrow> string \<Rightarrow> bool
    \<Rightarrow> string list \<Rightarrow> string list \<Rightarrow> string list" where
  "checkConflictsLoop w root ownership pkg force [] conflicts = conflicts"
| "checkConflictsLoop w root ownership pkg force (target # rest) conflicts =
     (let relative = normalizePathForReceipt root target in
      if (case ownership relative of Some owner \<Rightarrow> owner \<noteq> pkg | None \<Rightarrow> False) then
        checkConflictsLoop w root ownership pkg force rest (conflicts @ [relative])
      else if os_Stat w target \<noteq> None then
        (if \<not> force \<and> \<not> okOwned ownership relative pkg then
           checkConflictsLoop w root ownership pkg force rest (conflicts @ [relative])
         else checkConflictsLoop w root ownership pkg force rest conflicts)
      else checkConflictsLoop w root ownership pkg force rest conflicts)"

definition checkConflicts :: "world \<Rightarrow> Manager \<Rightarrow> string list \<Rightarrow> (string \<rightharpoonup> string)
    \<Rightarrow> string \<Rightarrow> bool \<Rightarrow> string list" where
  "checkConflicts w m targets ownership pkg force =
     checkConflictsLoop w (m_Root m) ownership pkg force targets []"

section \<open>internal/ghpm: install\<close>

record InstallOptions =
  io_Version :: string
  io_Force :: bool
  io_DryRun :: bool

text \<open>The body of the loop of \<^verbatim>\<open>removeObsoleteFiles\<close> over the old receipt's files.\<close>

definition removeObsolete :: "string \<Rightarrow> Receipt \<Rightarrow> world \<Rightarrow> ReceiptFile \<Rightarrow> world" where
  "removeObsolete root newReceipt w old =
     (if rf_Path old \<in> rf_Path ` set (rc_Files newReceipt) then w
      else if rf_Preserve old then w
      else
        let target = Join [root, rf_Path old] in
        if rf_Type old = ''file'' \<or> rf_Type old = ''symlink'' then ignoring w (os_Remove w target)
        else if rf_Type old = ''dir'' then ignoring w (os_Remove w target)
        else w)"

definition removeObsoleteFiles :: "string \<Rightarrow> Receipt \<Rightarrow> Receipt \<Rightarrow> world \<Rightarrow> world" where
  "removeObsoleteFiles root oldReceipt newReceipt w =
     foldl (removeObsolete root newReceipt) w (rc_Files oldReceipt)"

text \<open>
  \<^verbatim>\<open>runHooks\<close>: every command that is not blank runs in a shell; its result is dropped.
  Blank is tested on ASCII white space.
\<close>

definition isBlank :: "string \<Rightarrow> bool" where
  "isBlank cmd = list_all (\<lambda>c. c \<in> set [CHR '' '', CHR 0x09, CHR 0x0A, CHR 0x0B, CHR 0x0C, CHR 0x0D]) cmd"

definition runHooks :: "env \<Rightarrow> string list \<Rightarrow> world \<Rightarrow> world" where
  "runHooks ev commands w = foldl (\<lambda>w cmd. if isBlank cmd then w else env_sh ev cmd w) w commands"

text \<open>
  The early return of \<^verbatim>\<open>Install\<close> for a package that is already installed: an error, the
  stored receipt, or neither (\<open>Inr None\<close>: the installation goes on).
\<close>

definition alreadyInstalled :: "env \<Rightarrow> Manager \<Rightarrow> world \<Rightarrow> Manifest \<Rightarrow> InstalledState
    \<Rightarrow> InstallOptions \<Rightarrow> error + Receipt option" where
  "alreadyInstalled ev m w mf installed opts =
     (case map_of (is_Installed installed) (mf_Name mf) of
        None \<Rightarrow> Inr None
      | Some entry \<Rightarrow>
          if io_Force opts then Inr None
          else
            (case resolveVersion (env_net ev) mf (io_Version opts) of
               Inl e \<Rightarrow> Inl e
             | Inr (resolved, release) \<Rightarrow>
                 if resolved \<noteq> [] \<and> resolved = ie_Version entry then
                   (case LoadReceipt w (ReceiptPath (StateDir m) (mf_Name mf)) of
                      Inr receipt \<Rightarrow> Inr (Some receipt)
                    | Inl e \<Rightarrow> Inr None)
                 else Inr None))"

text \<open>What \<^verbatim>\<open>Install\<close> holds when the plan is built and the conflict check is next.\<close>

record planned =
  pd_mf :: Manifest
  pd_previous :: "Receipt option"
  pd_ownership :: "string \<rightharpoonup> string"
  pd_resolved :: string
  pd_release :: Release
  pd_plan :: plan
  pd_artifacts :: "Artifact list"
  pd_world :: world

text \<open>
  \<^verbatim>\<open>Install\<close> up to and including \<^verbatim>\<open>buildPlan\<close>: either it has returned (\<open>Inl\<close>, with
  the result and the system it leaves), or the plan is built. The work directory is
  made under a fresh name and removed on every return, so the tree is as without it.
\<close>

definition prepare :: "env \<Rightarrow> Manager \<Rightarrow> world \<Rightarrow> string \<Rightarrow> InstallOptions
    \<Rightarrow> ((error + Receipt) \<times> world) + planned" where
  "prepare ev m w0 name opts =
     (case lock ev m w0 of
        (Some e, w1) \<Rightarrow> Inl (Inl e, w1)
      | (None, w1) \<Rightarrow>
     (case EnsureDirs (m_Config m) (m_Root m) w1 of
        (Some e, w) \<Rightarrow> Inl (Inl e, w)
      | (None, w) \<Rightarrow>
     (case LoadManifest w m name of
        Inl e \<Rightarrow> Inl (Inl e, w)
      | Inr mf \<Rightarrow>
     (case LoadInstalled w (InstalledPath (StateDir m)) of
        Inl e \<Rightarrow> Inl (Inl e, w)
      | Inr installed \<Rightarrow>
     (case alreadyInstalled ev m w mf installed opts of
        Inl e \<Rightarrow> Inl (Inl e, w)
      | Inr (Some receipt) \<Rightarrow> Inl (Inr receipt, w)
      | Inr None \<Rightarrow>
     (let previousReceipt =
            (case LoadReceipt w (ReceiptPath (StateDir m) (mf_Name mf)) of
               Inr existing \<Rightarrow> Some existing
             | Inl e \<Rightarrow> None) in
      case buildOwnership w m of
        Inl e \<Rightarrow> Inl (Inl e, w)
      | Inr ownership \<Rightarrow>
     (case resolveVersion (env_net ev) mf (io_Version opts) of
        Inl e \<Rightarrow> Inl (Inl e, w)
      | Inr (resolved, release) \<Rightarrow>
     (let ctx = \<lparr>tc_Version = resolved, tc_Tag = resolved, tc_OS = env_GOOS ev,
                 tc_Arch = env_GOARCH ev, tc_Repo = src_Repo (mf_Source mf),
                 tc_Name = mf_Name mf\<rparr> in
      case env_MkdirTemp ev (Join [StateDir m, ''work'']) (mf_Name mf @ ''-'') of
        Inl e \<Rightarrow> Inl (Inl e, w)
      | Inr workDir \<Rightarrow>
     (case buildPlan ev m mf release ctx workDir w of
        (Inl e, w') \<Rightarrow> Inl (Inl e, w')
      | (Inr (pl, artifacts), w') \<Rightarrow>
          Inr \<lparr>pd_mf = mf, pd_previous = previousReceipt, pd_ownership = ownership,
               pd_resolved = resolved, pd_release = release, pd_plan = pl,
               pd_artifacts = artifacts, pd_world = w'\<rparr>)))))))))"

text \<open>\<^verbatim>\<open>Install\<close> after the conflict check and the dry-run return: steps, receipt, index.\<close>

definition commit :: "env \<Rightarrow> Manager \<Rightarrow> planned \<Rightarrow> (error + Receipt) \<times> world" where
  "commit ev m pd =
     (let mf = pd_mf pd;
          receiptPath = ReceiptPath (StateDir m) (mf_Name mf);
          receipt0 =
            \<lparr>rc_Schema = 1, rc_Name = mf_Name mf,
             rc_Source = \<lparr>rs_Kind = src_Kind (mf_Source mf), rs_Repo = src_Repo (mf_Source mf),
                          rs_Tag = pd_resolved pd, rs_ReleaseID = rel_ID (pd_release pd)\<rparr>,
             rc_Platform = \<lparr>pf_OS = env_GOOS ev, pf_Arch = env_GOARCH ev\<rparr>,
             rc_Artifacts = pd_artifacts pd, rc_Files = []\<rparr>
      in
      case runSteps ev (pl_steps (pd_plan pd)) (pd_world pd, pl_receiptFiles (pd_plan pd)) of
        (Some e, w1, receiptFiles) \<Rightarrow> (Inl e, w1)
      | (None, w1, receiptFiles) \<Rightarrow>
          let receipt = receipt0\<lparr>rc_Files := receiptFiles\<rparr> in
          case SaveReceipt w1 receiptPath receipt of
            Inl e \<Rightarrow> (Inl e, w1)
          | Inr w2 \<Rightarrow>
              (case RecordInstall (env_now ev) w2 (StateDir m) (mf_Name mf) (pd_resolved pd) of
                 Inl e \<Rightarrow> (Inl e, w2)
               | Inr w3 \<Rightarrow>
                   let w4 = (case pd_previous pd of
                               Some previous \<Rightarrow> removeObsoleteFiles (m_Root m) previous receipt w3
                             | None \<Rightarrow> w3)
                   in (Inr receipt, runHooks ev (mf_PostInstall mf) w4)))"

definition Install :: "env \<Rightarrow> Manager \<Rightarrow> world \<Rightarrow> string \<Rightarrow> InstallOptions
    \<Rightarrow> (error + Receipt) \<times> world" where
  "Install ev m w0 name opts =
     (case prepare ev m w0 name opts of
        Inl returned \<Rightarrow> returned
      | Inr pd \<Rightarrow>
          let conflicts = checkConflicts (pd_world pd) m (pl_targets (pd_plan pd))
                            (pd_ownership pd) name (io_Force opts) in
          if 0 < length conflicts then (Inl (ErrInstallConflicts conflicts), pd_world pd)
          else if io_DryRun opts then (Inr Receipt0, pd_world pd)
          else commit ev m pd)"

section \<open>Notions used in the statements\<close>

text \<open>
  \<open>treeOnly w w'\<close>: the two systems differ in the tree at most. \<open>grows w w'\<close>: receipts,
  installed index, manifests and refusals are the same, and every node of the first tree
  is a node of the second, unchanged (so only new paths and cache entries were added).
\<close>

definition treeOnly :: "world \<Rightarrow> world \<Rightarrow> bool" where
  "treeOnly w w' = (\<exists>d. w' = w\<lparr>w_nodes := d\<rparr>)"

definition grows :: "world \<Rightarrow> world \<Rightarrow> bool" where
  "grows w w' =
     (w_receipts w' = w_receipts w \<and> w_index w' = w_index w \<and>
      w_manifests w' = w_manifests w \<and> w_refused w' = w_refused w \<and>
      (\<forall>p n. nodeAt (w_nodes w) p = Some n \<longrightarrow> nodeAt (w_nodes w') p = Some n))"

text \<open>
  The conflict rule in the words of the specification: a target conflicts when (a) its
  root-relative path appears in the ownership map under a different package name, or (b)
  it exists on disk, is not owned by the current package, and force is not set.
\<close>

definition conflictSpec :: "world \<Rightarrow> string \<Rightarrow> (string \<rightharpoonup> string) \<Rightarrow> string \<Rightarrow> bool \<Rightarrow> string \<Rightarrow> bool" where
  "conflictSpec w root ownership pkg force target =
     (let path = normalizePathForReceipt root target in
      (case ownership path of Some owner \<Rightarrow> owner \<noteq> pkg | None \<Rightarrow> False) \<or>
      (os_Stat w target \<noteq> None \<and> ownership path \<noteq> Some pkg \<and> \<not> force))"






section \<open>Example inputs\<close>

text \<open>A network that is down, and a package with an http source.\<close>

definition noNet :: net where
  "noNet =
     \<lparr>net_github = (\<lambda>repo. Inl (ErrOS ''network'' repo)),
      net_gitlab = (\<lambda>repo. Inl (ErrOS ''network'' repo)),
      net_sortGithub = (\<lambda>less xs. xs),
      net_sortGitlab = (\<lambda>less xs. xs),
      net_parseRFC3339 = (\<lambda>s. None)\<rparr>"

definition httpManifest :: Manifest where
  "httpManifest =
     \<lparr>mf_Name = ''tool'', mf_Description = [],
      mf_Source = \<lparr>src_Kind = ''http'', src_Repo = ''https://example.org/tool''\<rparr>,
      mf_Install = [ActMkdir \<lparr>ma_Path = ''/opt/tool'', ma_Mode = [], ma_Owner = [], ma_Group = []\<rparr>],
      mf_PostInstall = [], mf_PostRemove = [],
      mf_Path = ''/var/lib/ghpm/packages/tool/package.yaml''\<rparr>"

text \<open>
  A manager on the root \<^verbatim>\<open>/\<close> with the default configuration, and an environment: the
  network is down, the lock is free, digests are the text itself in brackets, patterns
  and globs match what they are equal to, there are no archives, and hooks do nothing.
\<close>

definition demoManager :: Manager where
  "demoManager =
     \<lparr>m_Config = \<lparr>cfg_PackagesDir = ''/var/lib/ghpm/packages'',
                  cfg_StateDir = ''/var/lib/ghpm/state'', cfg_CacheDir = ''/var/cache/ghpm''\<rparr>,
      m_Root = ''/''\<rparr>"

definition demoEnv :: env where
  "demoEnv =
     \<lparr>env_net = noNet, env_GOOS = ''linux'', env_GOARCH = ''amd64'', env_now = ''t1'',
      env_flock = None,
      env_MkdirTemp = (\<lambda>dir pat. Inr (dir @ ''/'' @ pat @ ''1'')),
      env_sha256 = (\<lambda>c. ''<'' @ c @ ''>''),
      env_scanOctal = (\<lambda>s. 0),
      env_regexp = (\<lambda>pat. Some (\<lambda>s. s = pat)),
      env_Match = (\<lambda>pat s. pat = s),
      env_tar = (\<lambda>path compress. Inl (ErrNotExist path)),
      env_zip = (\<lambda>path. Inl (ErrNotExist path)),
      env_httpGet = (\<lambda>url. Inl (ErrOS ''network'' url)),
      env_urlPath = (\<lambda>url. None),
      env_sh = (\<lambda>cmd w. w)\<rparr>"

text \<open>
  An installed package \<^verbatim>\<open>app\<close>: its receipt lists the directory \<^verbatim>\<open>/opt/app\<close>, the files
  \<^verbatim>\<open>/opt/app/tool\<close> and \<^verbatim>\<open>/opt/app/gone\<close> (deleted by hand since) and the preserved
  \<^verbatim>\<open>/etc/app.conf\<close>; the directory also holds \<^verbatim>\<open>/opt/app/data\<close>, which no receipt lists.
\<close>

definition appFile :: "string \<Rightarrow> string \<Rightarrow> bool \<Rightarrow> ReceiptFile" where
  "appFile path type preserve =
     \<lparr>rf_Path = path, rf_Type = type, rf_Mode = 0, rf_SHA256 = [], rf_To = [],
      rf_Preserve = preserve\<rparr>"

definition appReceipt :: Receipt where
  "appReceipt =
     \<lparr>rc_Schema = 1, rc_Name = ''app'',
      rc_Source = \<lparr>rs_Kind = [], rs_Repo = [], rs_Tag = ''1.0'', rs_ReleaseID = 0\<rparr>,
      rc_Platform = \<lparr>pf_OS = ''linux'', pf_Arch = ''amd64''\<rparr>,
      rc_Artifacts = [],
      rc_Files = [appFile ''/opt/app'' ''dir'' False, appFile ''/opt/app/tool'' ''file'' False,
                  appFile ''/opt/app/gone'' ''file'' False,
                  appFile ''/etc/app.conf'' ''file'' True]\<rparr>"

definition appIndex :: InstalledState where
  "appIndex =
     \<lparr>is_Schema = 1,
      is_Installed = [(''app'', \<lparr>ie_Version = ''1.0'', ie_Receipt = ''receipts/app.json'',
                                 ie_InstalledAt = ''t0''\<rparr>),
                      (''bare'', \<lparr>ie_Version = [], ie_Receipt = ''receipts/bare.json'',
                                  ie_InstalledAt = ''t0''\<rparr>)]\<rparr>"

text \<open>
  A second installed package, \<^verbatim>\<open>bare\<close>, recorded with the empty version (it has no source
  and was installed with no version given); its receipt lists the directory \<^verbatim>\<open>/opt/bare\<close>.
\<close>

definition bareReceipt :: Receipt where
  "bareReceipt =
     \<lparr>rc_Schema = 1, rc_Name = ''bare'',
      rc_Source = \<lparr>rs_Kind = [], rs_Repo = [], rs_Tag = [], rs_ReleaseID = 0\<rparr>,
      rc_Platform = \<lparr>pf_OS = ''linux'', pf_Arch = ''amd64''\<rparr>,
      rc_Artifacts = [],
      rc_Files = [appFile ''/opt/bare'' ''dir'' False]\<rparr>"

text \<open>
  The manifests of the system, as decoded: \<^verbatim>\<open>app\<close> and \<^verbatim>\<open>bare\<close> themselves; \<^verbatim>\<open>app-next\<close>, a second directory
  whose manifest also says \<^verbatim>\<open>name: app\<close>; \<^verbatim>\<open>q\<close>, another package that wants \<^verbatim>\<open>/opt/app\<close>;
  and \<^verbatim>\<open>broken\<close>, whose second action cannot succeed because \<^verbatim>\<open>/etc/app.conf\<close> is a file.
  None has a source, so the version is the one asked for.
\<close>

definition mkdirAction :: "string \<Rightarrow> Action" where
  "mkdirAction path = ActMkdir \<lparr>ma_Path = path, ma_Mode = [], ma_Owner = [], ma_Group = []\<rparr>"

definition localManifest :: "string \<Rightarrow> Action list \<Rightarrow> Manifest" where
  "localManifest name actions =
     \<lparr>mf_Name = name, mf_Description = [], mf_Source = \<lparr>src_Kind = [], src_Repo = []\<rparr>,
      mf_Install = actions, mf_PostInstall = [], mf_PostRemove = [], mf_Path = []\<rparr>"

definition appWorld :: world where
  "appWorld =
     \<lparr>w_nodes =
        [(''/var'', Directory), (''/var/lock'', Directory),
         (''/var/lock/ghpm.lock'', File [] 420),
         (''/var/lib'', Directory), (''/var/lib/ghpm'', Directory),
         (''/var/lib/ghpm/packages'', Directory), (''/var/lib/ghpm/state'', Directory),
         (''/var/lib/ghpm/state/work'', Directory),
         (''/var/lib/ghpm/state/receipts'', Directory),
         (''/var/cache'', Directory), (''/var/cache/ghpm'', Directory),
         (''/var/cache/ghpm/downloads'', Directory),
         (''/opt'', Directory), (''/opt/app'', Directory),
         (''/opt/app/tool'', File ''tool'' 493), (''/opt/app/data'', File ''data'' 420),
         (''/opt/bare'', Directory),
         (''/etc'', Directory), (''/etc/app.conf'', File ''k=v'' 420)],
      w_manifests =
        [''/var/lib/ghpm/packages/app/package.yaml'' \<mapsto>
           Decoded (localManifest ''app'' [mkdirAction ''/opt/app'']),
         ''/var/lib/ghpm/packages/app-next/package.yaml'' \<mapsto>
           Decoded (localManifest ''app'' [mkdirAction ''/opt/app'']),
         ''/var/lib/ghpm/packages/bare/package.yaml'' \<mapsto>
           Decoded (localManifest ''bare'' [mkdirAction ''/opt/bare'']),
         ''/var/lib/ghpm/packages/q/package.yaml'' \<mapsto>
           Decoded (localManifest ''q'' [mkdirAction ''/opt/app'']),
         ''/var/lib/ghpm/packages/broken/package.yaml'' \<mapsto>
           Decoded (localManifest [] [mkdirAction ''/opt/b1'', mkdirAction ''/etc/app.conf/x'',
                                      mkdirAction ''/opt/b2''])],
      w_receipts = [''/var/lib/ghpm/state/receipts/app.json'' \<mapsto> Decoded appReceipt,
                    ''/var/lib/ghpm/state/receipts/bare.json'' \<mapsto> Decoded bareReceipt],
      w_index = [''/var/lib/ghpm/state/installed.json'' \<mapsto> Decoded appIndex],
      w_cache = Map.empty,
      w_refused = (\<lambda>p. False)\<rparr>"

text \<open>The template context of a package of the example, which has no source.\<close>

definition localCtx :: "string \<Rightarrow> string \<Rightarrow> TemplateContext" where
  "localCtx version name =
     \<lparr>tc_Version = version, tc_Tag = version, tc_OS = ''linux'', tc_Arch = ''amd64'',
      tc_Repo = [], tc_Name = name\<rparr>"

text \<open>Install options: a version, with or without force, never a dry run.\<close>

definition optsFor :: "string \<Rightarrow> bool \<Rightarrow> InstallOptions" where
  "optsFor version force = \<lparr>io_Version = version, io_Force = force, io_DryRun = False\<rparr>"

text \<open>
  A manager that installs below the staging root \<^verbatim>\<open>/tmp/r\<close>, and a package whose targets are
  written relative to that root, as in the integration test of the repository
  (\<^verbatim>\<open>target: "bin/ghpm"\<close>): a directory and a link into it.
\<close>

definition stagedManager :: Manager where
  "stagedManager = demoManager\<lparr>m_Root := ''/tmp/r''\<rparr>"

definition relativeManifest :: Manifest where
  "relativeManifest =
     localManifest ''tool''
       [mkdirAction ''opt/tool'',
        ActSymlink \<lparr>sa_Target = ''bin/tool'', sa_To = ''../opt/tool/tool''\<rparr>]"



section \<open>Release ordering\<close>

lemma numPrefix_of_nat: "numPrefix (of_nat k) s = of_nat (natPrefix k s)"
proof (induction s arbitrary: k)
  case Nil
  show ?case by simp
next
  case (Cons ch cs)
  let ?d = "(of_char ch :: nat) - 48"
  have step: "(of_nat k :: int64) * 10 + of_nat ?d = of_nat (k * 10 + ?d)"
    by simp
  show ?case
  proof (cases "(of_char ch :: nat) < 48 \<or> 57 < (of_char ch :: nat)")
    case True
    then show ?thesis by simp
  next
    case False
    then have "numPrefix (of_nat k) (ch # cs) = numPrefix (of_nat (k * 10 + ?d)) cs"
      by (simp only: numPrefix.simps step if_False)
    also have "\<dots> = of_nat (natPrefix (k * 10 + ?d) cs)"
      by (rule Cons.IH)
    also have "\<dots> = of_nat (natPrefix k (ch # cs))"
      using False by simp
    finally show ?thesis .
  qed
qed

lemma numPrefix_0: "numPrefix 0 s = of_nat (natPrefix 0 s)"
  using numPrefix_of_nat [of 0 s] by simp

lemma parseSemver_semverSpec:
  "parseSemver tag =
     map_option (\<lambda>(a, b, c). [of_nat a, of_nat b, of_nat c]) (semverSpec tag)"
proof (cases "Split CHR ''.'' (TrimPrefix tag ''v'')")
  case Nil
  then show ?thesis by (simp add: parseSemver_def semverSpec_def)
next
  case (Cons major ps)
  show ?thesis
  proof (cases ps)
    case Nil
    with Cons show ?thesis by (simp add: parseSemver_def semverSpec_def)
  next
    case ps: (Cons minor rest)
    show ?thesis
    proof (cases rest)
      case Nil
      with Cons ps show ?thesis
        by (simp add: parseSemver_def semverSpec_def numPrefix_0)
    next
      case (Cons patch more)
      with \<open>Split CHR ''.'' (TrimPrefix tag ''v'') = major # ps\<close> ps show ?thesis
        by (simp add: parseSemver_def semverSpec_def numPrefix_0)
    qed
  qed
qed

lemma sint_of_nat_small:
  assumes "a < 2 ^ 63"
  shows "sint (of_nat a :: int64) = int a"
proof -
  have "sint (of_nat a :: int64) = signed_take_bit 63 (int a)"
    using signed_of_nat [where 'a = int and 'b = 64, of a] by simp
  also have "\<dots> = int a"
  proof (rule signed_take_bit_int_eq_self)
    show "- (2 ^ 63) \<le> int a" by (rule order_trans [of _ 0]) simp_all
    show "int a < 2 ^ 63" using assms by simp
  qed
  finally show ?thesis .
qed

lemma sless_of_nat:
  assumes "a < 2 ^ 63" and "b < 2 ^ 63"
  shows "((of_nat a :: int64) <s of_nat b) = (a < b)"
  using assms by (simp add: word_sless_alt sint_of_nat_small)


text \<open>
  \<^bold>\<open>C7\<close> (as amended). When both tags parse as semantic versions (optional leading
  \<^verbatim>\<open>v\<close>, at least MAJOR.MINOR, the numeric prefix of each part, a missing PATCH read as
  \<open>0\<close>) and each of the six numbers is below \<open>2 ^ 63\<close>, \<^verbatim>\<open>compareSemver\<close> succeeds and
  compares major, then minor, then patch numerically, the higher one winning.
\<close>

theorem compareSemver_numeric:
  assumes "semverSpec a = Some va" and "semverSpec b = Some vb"
    and "fitsInt va" and "fitsInt vb"
  shows "compareSemver a b = Some (orderSpec va vb)"
proof -
  obtain a1 a2 a3 where va: "va = (a1, a2, a3)" by (cases va)
  obtain b1 b2 b3 where vb: "vb = (b1, b2, b3)" by (cases vb)
  have bounds: "a1 < 2 ^ 63" "a2 < 2 ^ 63" "a3 < 2 ^ 63" "b1 < 2 ^ 63" "b2 < 2 ^ 63" "b3 < 2 ^ 63"
    using assms(3,4) by (simp_all add: fitsInt_def va vb)
  have "compareSemver a b =
      Some (cmpNums [of_nat a1, of_nat a2, of_nat a3] [of_nat b1, of_nat b2, of_nat b3])"
    using assms(1,2) by (simp add: compareSemver_def parseSemver_semverSpec va vb)
  also have "cmpNums [of_nat a1, of_nat a2, of_nat a3] [of_nat b1, of_nat b2, of_nat b3]
      = orderSpec va vb"
    using bounds by (simp add: sless_of_nat orderSpec_def va vb)
  finally show ?thesis .
qed

text \<open>
  The two boundary cases of the specification, through the theorem: \<^verbatim>\<open>v1.10.0\<close> is above
  \<^verbatim>\<open>v1.9.0\<close>, and \<^verbatim>\<open>v2.0\<close> equals \<^verbatim>\<open>v2.0.0\<close>.
\<close>

theorem compareSemver_numeric_witness:
  "compareSemver ''v1.10.0'' ''v1.9.0'' = Some 1 \<and> compareSemver ''v2.0'' ''v2.0.0'' = Some 0"
proof -
  have 1: "semverSpec ''v1.10.0'' = Some (1, 10, 0)" "semverSpec ''v1.9.0'' = Some (1, 9, 0)"
    "semverSpec ''v2.0'' = Some (2, 0, 0)" "semverSpec ''v2.0.0'' = Some (2, 0, 0)"
    by (simp_all add: semverSpec_def TrimPrefix_def HasPrefix_def)
  have 2: "fitsInt (1, 10, 0)" "fitsInt (1, 9, 0)" "fitsInt (2, 0, 0)"
    by (simp_all add: fitsInt_def)
  show ?thesis
    using compareSemver_numeric [OF 1(1) 1(2) 2(1) 2(2)]
      compareSemver_numeric [OF 1(3) 1(4) 2(3) 2(3)]
    by (simp add: orderSpec_def)
qed

text \<open>
  Without the bound the claim fails: the major number \<open>2 ^ 63\<close> wraps to the least
  \<^verbatim>\<open>int\<close>, so a tag that is numerically far above \<^verbatim>\<open>v1.0\<close> is ordered below it.
\<close>

theorem compareSemver_overflow_counterexample:
  "semverSpec ''v9223372036854775808.0'' = Some (9223372036854775808, 0, 0) \<and>
   semverSpec ''v1.0'' = Some (1, 0, 0) \<and>
   orderSpec (9223372036854775808, 0, 0) (1, 0, 0) = 1 \<and>
   compareSemver ''v9223372036854775808.0'' ''v1.0'' = Some (- 1)"
proof -
  have 1: "semverSpec ''v9223372036854775808.0'' = Some (9223372036854775808, 0, 0)"
    by (simp add: semverSpec_def TrimPrefix_def HasPrefix_def)
  have 2: "semverSpec ''v1.0'' = Some (1, 0, 0)"
    by (simp add: semverSpec_def TrimPrefix_def HasPrefix_def)
  have 3: "orderSpec (9223372036854775808, 0, 0) (1, 0, 0) = 1"
    by (simp add: orderSpec_def)
  have 4: "compareSemver ''v9223372036854775808.0'' ''v1.0'' = Some (- 1)"
    by (simp add: compareSemver_def parseSemver_semverSpec 1 2 word_sless_alt)
  show ?thesis using 1 2 3 4 by simp
qed

section \<open>The http source\<close>

text \<open>
  \<^bold>\<open>C6\<close> (as amended). For a manifest with \<^verbatim>\<open>source.kind = http\<close>: the http driver's
  \<^verbatim>\<open>ResolveRelease\<close> fails when no version is given and otherwise returns a release with
  only its tag set (no id, no published time, no assets); the manager's
  \<^verbatim>\<open>resolveVersion\<close>, which Install and Upgrade call, returns that release for an
  explicit version, and for no version it does not ask the driver: it returns the empty
  version and the empty release, without an error.
\<close>

theorem http_source_resolution:
  assumes "src_Kind (mf_Source mf) = ''http''"
  shows "ResolveRelease nw httpResolver (src_Repo (mf_Source mf)) version =
           (if version = [] then Inl ErrHTTPNeedsVersion
            else Inr \<lparr>rel_Tag = version, rel_ID = 0, rel_Published = 0, rel_Assets = []\<rparr>) \<and>
         resolveVersion nw mf version =
           (if version = [] then Inr ([], Release0)
            else Inr (version,
                   \<lparr>rel_Tag = version, rel_ID = 0, rel_Published = 0, rel_Assets = []\<rparr>))"
  using assms
  by (simp add: resolveVersion_def NewResolver_def ResolveRelease_def Release0_def)

theorem http_source_resolution_witness:
  "ResolveRelease noNet httpResolver ''https://example.org/tool'' ''1.2.3'' =
     Inr \<lparr>rel_Tag = ''1.2.3'', rel_ID = 0, rel_Published = 0, rel_Assets = []\<rparr> \<and>
   resolveVersion noNet httpManifest ''1.2.3'' =
     Inr (''1.2.3'', \<lparr>rel_Tag = ''1.2.3'', rel_ID = 0, rel_Published = 0, rel_Assets = []\<rparr>) \<and>
   ResolveRelease noNet httpResolver ''https://example.org/tool'' [] = Inl ErrHTTPNeedsVersion"
proof -
  have kind: "src_Kind (mf_Source httpManifest) = ''http''"
    by (simp add: httpManifest_def)
  have repo: "src_Repo (mf_Source httpManifest) = ''https://example.org/tool''"
    by (simp add: httpManifest_def)
  show ?thesis
    using http_source_resolution [OF kind, of noNet "''1.2.3''"]
      http_source_resolution [OF kind, of noNet "[]"]
    by (simp add: repo)
qed

text \<open>
  The claim as stated fails: with no version given, resolving the version of an
  http-sourced package is not an error.
\<close>

theorem http_no_version_counterexample:
  "src_Kind (mf_Source httpManifest) = ''http'' \<and>
   resolveVersion noNet httpManifest [] = Inr ([], Release0)"
  by (simp add: resolveVersion_def httpManifest_def)

section \<open>Remove\<close>

lemma map_of_unlink: "map_of (unlink d p) q = (if q = p then None else map_of d q)"
  by (induction d) (auto simp: unlink_def)







text \<open>Evaluating paths of concrete inputs.\<close>

lemmas path_eval = Join_def Clean_def cleanStep_def Dir_def HasPrefix_def pathChain_def upt_rec

lemma lock_app: "lock demoEnv demoManager appWorld = (None, appWorld)"
  by (simp add: lock_def demoEnv_def demoManager_def appWorld_def path_eval
     andThen_def attempt_def os_MkdirAll_def os_Stat_def nodeAt_def os_OpenCreate_def eval_nat_numeral)

lemma rp_app: "ReceiptPath (StateDir demoManager) ''app'' = ''/var/lib/ghpm/state/receipts/app.json''"
  "InstalledPath (StateDir demoManager) = ''/var/lib/ghpm/state/installed.json''"
  by (simp_all add: ReceiptPath_def InstalledPath_def StateDir_def demoManager_def path_eval)













lemma load_app:
  "LoadReceipt appWorld (ReceiptPath (StateDir demoManager) ''app'') = Inr appReceipt"
  by (simp add: rp_app LoadReceipt_def appWorld_def appReceipt_def)







section \<open>Calls on the tree leave receipts and index alone\<close>

lemma treeOnly_refl: "treeOnly w w"
  by (auto simp: treeOnly_def intro: exI [of _ "w_nodes w"])
lemma treeOnly_trans: "treeOnly a b \<Longrightarrow> treeOnly b c \<Longrightarrow> treeOnly a c"
  by (auto simp: treeOnly_def)


lemma treeOnly_fields:
  assumes "treeOnly w w'"
  shows "w_receipts w' = w_receipts w" "w_index w' = w_index w" "w_refused w' = w_refused w"
    "w_manifests w' = w_manifests w" "w_cache w' = w_cache w"
  using assms by (auto simp: treeOnly_def)

lemma treeOnly_putNode: "treeOnly w (putNode w p n)"
  by (auto simp: treeOnly_def putNode_def)

lemma treeOnly_nodes: "treeOnly w (w\<lparr>w_nodes := d\<rparr>)"
  by (auto simp: treeOnly_def)

lemma os_Remove_treeOnly: "os_Remove w p = Inr w' \<Longrightarrow> treeOnly w w'"
  by (auto simp: os_Remove_def treeOnly_nodes split: option.splits if_splits)

lemma os_Mkdir_treeOnly: "os_Mkdir w p = Inr w' \<Longrightarrow> treeOnly w w'"
  by (auto simp: os_Mkdir_def treeOnly_putNode split: if_splits)

lemma mkdirChain_treeOnly: "mkdirChain w ps = Inr w' \<Longrightarrow> treeOnly w w'"
proof (induction ps arbitrary: w)
  case Nil
  then show ?case by (simp add: treeOnly_refl)
next
  case (Cons a as)
  then show ?case
    by (auto split: option.splits node.splits sum.splits
        dest!: os_Mkdir_treeOnly intro: treeOnly_trans)
qed

lemma os_MkdirAll_treeOnly: "os_MkdirAll w p = Inr w' \<Longrightarrow> treeOnly w w'"
  by (simp add: os_MkdirAll_def mkdirChain_treeOnly)

lemma os_WriteFile_treeOnly: "os_WriteFile w p c = Inr w' \<Longrightarrow> treeOnly w w'"
  by (auto simp: os_WriteFile_def treeOnly_putNode split: option.splits node.splits if_splits)

lemma os_OpenCreate_treeOnly: "os_OpenCreate w p = Inr w' \<Longrightarrow> treeOnly w w'"
  by (auto simp: os_OpenCreate_def treeOnly_putNode treeOnly_refl
      split: option.splits node.splits if_splits)

lemma os_Chmod_treeOnly: "os_Chmod w p perm = Inr w' \<Longrightarrow> treeOnly w w'"
  by (auto simp: os_Chmod_def treeOnly_putNode treeOnly_refl
      split: option.splits node.splits if_splits)

lemma os_Rename_treeOnly: "os_Rename w old new = Inr w' \<Longrightarrow> treeOnly w w'"
  by (auto simp: os_Rename_def treeOnly_nodes treeOnly_refl split: option.splits if_splits)

lemma os_Symlink_treeOnly: "os_Symlink w to p = Inr w' \<Longrightarrow> treeOnly w w'"
  by (auto simp: os_Symlink_def treeOnly_putNode split: if_splits)

lemma andThen_tree:
  assumes "treeOnly w (snd r)" and "\<And>w1. treeOnly w w1 \<Longrightarrow> treeOnly w (snd (f w1))"
  shows "treeOnly w (snd (andThen r f))"
  using assms by (cases r) (auto simp: andThen_def split: option.splits)

lemma attempt_tree:
  assumes "treeOnly w w1" and "\<And>w'. r = Inr w' \<Longrightarrow> treeOnly w1 w'"
  shows "treeOnly w (snd (attempt w1 r))"
  using assms by (cases r) (auto simp: attempt_def intro: treeOnly_trans)

lemma ignoring_tree:
  assumes "treeOnly w w1" and "\<And>w'. r = Inr w' \<Longrightarrow> treeOnly w1 w'"
  shows "treeOnly w (ignoring w1 r)"
  using assms by (cases r) (auto simp: ignoring_def intro: treeOnly_trans)

lemma if_tree:
  assumes "c \<Longrightarrow> treeOnly w (snd a)" and "\<not> c \<Longrightarrow> treeOnly w (snd b)"
  shows "treeOnly w (snd (if c then a else b))"
  using assms by simp

lemma if_tree':
  assumes "c \<Longrightarrow> treeOnly w a" and "\<not> c \<Longrightarrow> treeOnly w b"
  shows "treeOnly w (if c then a else b)"
  using assms by simp

lemma sum_tree:
  assumes "\<And>e. r = Inl e \<Longrightarrow> treeOnly w (snd (f e))" and "\<And>x. r = Inr x \<Longrightarrow> treeOnly w (snd (g x))"
  shows "treeOnly w (snd (case r of Inl e \<Rightarrow> f e | Inr x \<Rightarrow> g x))"
  using assms by (cases r) simp_all

lemma pair_tree: "treeOnly w b \<Longrightarrow> treeOnly w (snd (a, b))"
  by simp

lemma os_tree:
  "os_Remove w p = Inr w' \<Longrightarrow> treeOnly w w'"
  "os_MkdirAll w p = Inr w' \<Longrightarrow> treeOnly w w'"
  "os_WriteFile w p c = Inr w' \<Longrightarrow> treeOnly w w'"
  "os_Chmod w p perm = Inr w' \<Longrightarrow> treeOnly w w'"
  "os_Rename w old new = Inr w' \<Longrightarrow> treeOnly w w'"
  "os_Symlink w to p = Inr w' \<Longrightarrow> treeOnly w w'"
  "os_OpenCreate w p = Inr w' \<Longrightarrow> treeOnly w w'"
  by (rule os_Remove_treeOnly os_MkdirAll_treeOnly os_WriteFile_treeOnly os_Chmod_treeOnly
      os_Rename_treeOnly os_Symlink_treeOnly os_OpenCreate_treeOnly, assumption)+

lemmas tree_intros = andThen_tree attempt_tree ignoring_tree if_tree if_tree' sum_tree pair_tree
  treeOnly_refl

lemma createSymlinkAtomic_tree: "treeOnly w (snd (createSymlinkAtomic w target to))"
  unfolding createSymlinkAtomic_def Let_def
  by ((intro tree_intros | assumption | erule os_tree)+,
      (blast dest: os_tree intro: treeOnly_trans)+)

lemma installFileAtomic_tree: "treeOnly w (snd (installFileAtomic w target source perm))"
  unfolding installFileAtomic_def Let_def
  by ((intro tree_intros | assumption | erule os_tree)+,
      (blast dest: os_tree intro: treeOnly_trans)+)

lemma extractFile_tree: "treeOnly w w1 \<Longrightarrow> treeOnly w (snd (extractFile w1 target body perm))"
  unfolding extractFile_def
  by (intro tree_intros | assumption | erule os_tree)+

lemma extractTarLoop_tree:
  "treeOnly w w1 \<Longrightarrow> treeOnly w (snd (extractTarLoop match targetDir action entries tailErr w1))"
proof (induction entries arbitrary: w1)
  case Nil
  then show ?case by simp
next
  case (Cons hdr rest)
  show ?case
    unfolding extractTarLoop.simps Let_def
    by (intro tree_intros Cons.IH extractFile_tree Cons.prems | assumption | erule os_tree)+
qed

lemma extractZipLoop_tree:
  "treeOnly w w1 \<Longrightarrow> treeOnly w (snd (extractZipLoop match targetDir action entries w1))"
proof (induction entries arbitrary: w1)
  case Nil
  then show ?case by simp
next
  case (Cons f rest)
  show ?case
    unfolding extractZipLoop.simps Let_def
    by (intro tree_intros Cons.IH Cons.prems | assumption | erule os_tree)+
qed

lemma extractArchive_tree:
  "treeOnly w (snd (extractArchive ev w path hintName workDir targetDir action))"
  unfolding extractArchive_def extractTar_def extractZip_def
  by (auto split: sum.splits prod.splits intro: treeOnly_refl
      extractTarLoop_tree [OF treeOnly_refl] extractZipLoop_tree [OF treeOnly_refl])

lemma runStep_tree: "treeOnly (fst s) (fst (snd (runStep ev step s)))"
proof (cases s)
  case (Pair w rfs)
  show ?thesis
  proof (cases step)
    case (StepMkdirAll target)
    have "treeOnly w (snd (attempt w (os_MkdirAll w target)))"
      by (intro tree_intros | assumption | erule os_tree)+
    then show ?thesis using Pair StepMkdirAll by (auto simp: runStep_def split: prod.splits)
  next
    case (StepSymlink target to)
    then show ?thesis using Pair createSymlinkAtomic_tree [of w target to]
      by (auto simp: runStep_def split: prod.splits)
  next
    case (StepInstallFile target source perm)
    then show ?thesis using Pair installFileAtomic_tree [of w target source perm]
      by (auto simp: runStep_def split: prod.splits)
  next
    case (StepExtract sourcePath hintName workDir targetDir action)
    then show ?thesis
      using Pair extractArchive_tree [of w ev sourcePath hintName workDir targetDir action]
      by (auto simp: runStep_def split: prod.splits)
  next
    case (StepRecord root targetDir files)
    then show ?thesis using Pair by (auto simp: runStep_def treeOnly_refl split: prod.splits)
  qed
qed

lemma runSteps_tree: "treeOnly (fst s) (fst (snd (runSteps ev steps s)))"
proof (induction steps arbitrary: s)
  case Nil
  show ?case by (simp add: treeOnly_refl)
next
  case (Cons step steps)
  obtain err s' where r: "runStep ev step s = (err, s')" by (cases "runStep ev step s")
  have t: "treeOnly (fst s) (fst s')" using runStep_tree [of s ev step] r by simp
  show ?case
  proof (cases err)
    case None
    with r t Cons.IH [of s'] show ?thesis by (auto intro: treeOnly_trans)
  next
    case (Some e)
    with r t show ?thesis by simp
  qed
qed

lemma runSteps_append:
  "runSteps ev (xs @ ys) s =
     (case runSteps ev xs s of (Some e, s') \<Rightarrow> (Some e, s') | (None, s') \<Rightarrow> runSteps ev ys s')"
  by (induction xs arbitrary: s) (auto split: prod.splits option.splits)

section \<open>Preparing an installation only adds to the tree\<close>

lemma grows_refl: "grows w w"
  by (simp add: grows_def)

lemma grows_trans: "grows a b \<Longrightarrow> grows b c \<Longrightarrow> grows a c"
  by (simp add: grows_def)

lemma nodeAt_putNode_other:
  "q \<noteq> p \<Longrightarrow> nodeAt (w_nodes (putNode w p n)) q = nodeAt (w_nodes w) q"
  by (simp add: putNode_def nodeAt_def map_of_unlink)

lemma putNode_grows:
  assumes "nodeAt (w_nodes w) p = None"
  shows "grows w (putNode w p n)"
  unfolding grows_def
proof (intro conjI allI impI)
  fix q x assume "nodeAt (w_nodes w) q = Some x"
  with assms have "q \<noteq> p" by auto
  then show "nodeAt (w_nodes (putNode w p n)) q = Some x"
    using \<open>nodeAt (w_nodes w) q = Some x\<close> by (simp add: nodeAt_putNode_other)
qed (simp_all add: putNode_def)

lemma os_Mkdir_grows: "os_Mkdir w p = Inr w' \<Longrightarrow> grows w w'"
  by (auto simp: os_Mkdir_def putNode_grows split: if_splits)

lemma mkdirChain_grows: "mkdirChain w ps = Inr w' \<Longrightarrow> grows w w'"
proof (induction ps arbitrary: w)
  case Nil
  then show ?case by (simp add: grows_refl)
next
  case (Cons a as)
  then show ?case
    by (auto split: option.splits node.splits sum.splits
        dest!: os_Mkdir_grows intro: grows_trans)
qed

lemma os_MkdirAll_grows: "os_MkdirAll w p = Inr w' \<Longrightarrow> grows w w'"
  by (simp add: os_MkdirAll_def mkdirChain_grows)

lemma follow_missing: "follow k d p = Some (q, None) \<Longrightarrow> nodeAt d q = None"
  by (induction k arbitrary: p) (auto split: option.splits node.splits)

lemma os_OpenCreate_grows: "os_OpenCreate w p = Inr w' \<Longrightarrow> grows w w'"
  by (auto simp: os_OpenCreate_def grows_refl split: option.splits node.splits if_splits
      dest!: follow_missing intro: putNode_grows)

lemma lock_grows: "grows w (snd (lock ev m w))"
proof -
  let ?lp = "Join [m_Root m, ''var/lock/ghpm.lock'']"
  show ?thesis
  proof (cases "os_MkdirAll w (Dir ?lp)")
    case (Inl e)
    then show ?thesis by (simp add: lock_def Let_def andThen_def attempt_def grows_refl)
  next
    case (Inr w1)
    then have g1: "grows w w1" by (rule os_MkdirAll_grows)
    show ?thesis
    proof (cases "os_OpenCreate w1 ?lp")
      case (Inl e)
      with Inr g1 show ?thesis by (simp add: lock_def Let_def andThen_def attempt_def)
    next
      case (Inr w2)
      then have "grows w1 w2" by (rule os_OpenCreate_grows)
      with g1 have "grows w w2" by (rule grows_trans)
      with Inr \<open>os_MkdirAll w (Dir ?lp) = Inr w1\<close> show ?thesis
        by (simp add: lock_def Let_def andThen_def attempt_def)
    qed
  qed
qed

lemma mkdirAllEach_grows: "grows w (snd (mkdirAllEach w dirs))"
proof (induction dirs arbitrary: w)
  case Nil
  show ?case by (simp add: grows_refl)
next
  case (Cons dir dirs)
  show ?case
  proof (cases "os_MkdirAll w dir")
    case (Inl e)
    then show ?thesis by (simp add: grows_refl)
  next
    case (Inr w')
    then have "grows w w'" by (rule os_MkdirAll_grows)
    with Cons [of w'] Inr show ?thesis by (auto intro: grows_trans)
  qed
qed

lemma EnsureDirs_grows: "grows w (snd (EnsureDirs c root w))"
  unfolding EnsureDirs_def by (rule mkdirAllEach_grows)

lemma grows_cache: "grows w (w\<lparr>w_cache := c\<rparr>)"
  by (simp add: grows_def)

lemma fetchURL_grows: "grows w (snd (fetchURL ev m w urlStr))"
proof (cases "os_MkdirAll w (Join [CacheDir m, ''downloads''])")
  case (Inl e)
  then show ?thesis by (simp add: fetchURL_def Let_def grows_refl)
next
  case (Inr w1)
  then have g: "grows w w1" by (rule os_MkdirAll_grows)
  have "grows w1 (w1\<lparr>w_cache := c\<rparr>)" for c by (rule grows_cache)
  with g have "grows w (w1\<lparr>w_cache := c\<rparr>)" for c by (rule grows_trans)
  with g Inr show ?thesis
    by (auto simp: fetchURL_def Let_def split: sum.splits prod.splits)
qed

lemma extractSource_grows: "grows w (snd (extractSource ev m w mf action ctx))"
  using fetchURL_grows [of w ev m]
  by (auto simp: extractSource_def Let_def grows_refl split: sum.splits prod.splits)
     (metis snd_conv)+


lemma buildExtractPlan_grows: "grows w (snd (buildExtractPlan ev m w mf action ctx workDir))"
  using extractSource_grows [of w ev m mf action ctx]
  by (auto simp: buildExtractPlan_def Let_def split: sum.splits prod.splits)

lemma planAction_grows: "grows w (snd (planAction ev m mf release ctx workDir act acc w))"
proof (cases acc)
  case (Pair pl artifacts)
  show ?thesis
  proof (cases act)
    case (ActAsset a)
    then show ?thesis
      using Pair fetchURL_grows [of w ev m]
      by (auto simp: planAction_def Let_def grows_refl split: sum.splits prod.splits)
         (metis snd_conv)+
  next
    case (ActURL a)
    then show ?thesis
      using Pair fetchURL_grows [of w ev m "ExpandTemplate (ua_URL a) ctx"]
      by (auto simp: planAction_def Let_def split: sum.splits prod.splits)
  next
    case (ActFile a)
    then show ?thesis
      using Pair by (auto simp: planAction_def Let_def grows_refl split: sum.splits prod.splits)
  next
    case (ActSymlink a)
    then show ?thesis using Pair by (simp add: planAction_def Let_def grows_refl)
  next
    case (ActExtract a)
    then show ?thesis
      using Pair buildExtractPlan_grows [of w ev m mf a ctx workDir]
      by (auto simp: planAction_def Let_def split: sum.splits prod.splits)
  next
    case (ActMkdir a)
    then show ?thesis using Pair by (simp add: planAction_def Let_def grows_refl)
  qed
qed

lemma buildPlanLoop_grows:
  "grows w (snd (buildPlanLoop ev m mf release ctx workDir acts acc w))"
proof (induction acts arbitrary: acc w)
  case Nil
  show ?case by (simp add: grows_refl)
next
  case (Cons act acts)
  obtain r w' where p: "planAction ev m mf release ctx workDir act acc w = (r, w')"
    by (cases "planAction ev m mf release ctx workDir act acc w")
  have g: "grows w w'" using planAction_grows [of w ev m mf release ctx workDir act acc] p by simp
  show ?case
  proof (cases r)
    case (Inl e)
    with p g show ?thesis by simp
  next
    case (Inr acc')
    with p g Cons [of w' acc'] show ?thesis by (auto intro: grows_trans)
  qed
qed

lemma buildPlan_grows: "grows w (snd (buildPlan ev m mf release ctx workDir w))"
  unfolding buildPlan_def by (rule buildPlanLoop_grows)

text \<open>
  \<^verbatim>\<open>Install\<close> up to the conflict check: whichever way it leaves this part, nothing that
  was there has changed; the lock file, skeleton directories and cached downloads may
  have been added.
\<close>

lemma prepare_grows:
  "prepare ev m w0 name opts = Inr pd \<Longrightarrow> grows w0 (pd_world pd)"
  "prepare ev m w0 name opts = Inl (r, w) \<Longrightarrow> grows w0 w"
proof -
  obtain e1 w1 where l: "lock ev m w0 = (e1, w1)" by (cases "lock ev m w0")
  obtain e2 w2 where d: "EnsureDirs (m_Config m) (m_Root m) w1 = (e2, w2)"
    by (cases "EnsureDirs (m_Config m) (m_Root m) w1")
  have g1: "grows w0 w1" using lock_grows [of w0 ev m] l by simp
  have g2: "grows w0 w2"
    using EnsureDirs_grows [of w1 "m_Config m" "m_Root m"] d g1 by (auto intro: grows_trans)
  have g3: "grows w0 (snd (buildPlan ev m mf release ctx workDir w2))" for mf release ctx workDir
    using g2 buildPlan_grows by (rule grows_trans)
  show "prepare ev m w0 name opts = Inr pd \<Longrightarrow> grows w0 (pd_world pd)"
    using l d g3
    by (auto simp: prepare_def Let_def split: option.splits sum.splits prod.splits) (metis snd_conv)+
  show "prepare ev m w0 name opts = Inl (r, w) \<Longrightarrow> grows w0 w"
    using l d g1 g2 g3
    by (auto simp: prepare_def Let_def split: option.splits sum.splits prod.splits) (metis snd_conv)+
qed

section \<open>The conflict check\<close>

lemma checkConflictsLoop_filter:
  "checkConflictsLoop w root ownership pkg force targets acc =
     acc @ map (normalizePathForReceipt root)
             (filter (conflictSpec w root ownership pkg force) targets)"
proof (induction targets arbitrary: acc)
  case Nil
  show ?case by simp
next
  case (Cons t ts)
  let ?rel = "normalizePathForReceipt root t"
  have spec: "conflictSpec w root ownership pkg force t =
      ((case ownership ?rel of Some owner \<Rightarrow> owner \<noteq> pkg | None \<Rightarrow> False) \<or>
       (os_Stat w t \<noteq> None \<and> \<not> force \<and> \<not> okOwned ownership ?rel pkg))"
    by (auto simp: conflictSpec_def Let_def okOwned_def split: option.splits)
  show ?case
  proof (cases "conflictSpec w root ownership pkg force t")
    case True
    then have "checkConflictsLoop w root ownership pkg force (t # ts) acc =
        checkConflictsLoop w root ownership pkg force ts (acc @ [?rel])"
      using spec by (auto simp: Let_def)
    then show ?thesis using True by (simp add: Cons.IH)
  next
    case False
    then have "checkConflictsLoop w root ownership pkg force (t # ts) acc =
        checkConflictsLoop w root ownership pkg force ts acc"
      using spec by (auto simp: Let_def)
    then show ?thesis using False by (simp add: Cons.IH)
  qed
qed

lemma checkConflicts_filter:
  "checkConflicts w m targets ownership pkg force =
     map (normalizePathForReceipt (m_Root m))
       (filter (conflictSpec w (m_Root m) ownership pkg force) targets)"
  by (simp add: checkConflicts_def checkConflictsLoop_filter)

text \<open>
  \<^bold>\<open>C1\<close> (as amended). Once the plan is built, Install returns the conflict error if and
  only if some planned target (a) is recorded, under its root-relative path, in the
  ownership map under a name other than the name Install was called with, whether or not
  it exists on disk and whether or not force is set, or (b) exists on disk, is not owned
  under that name, and force is not set. The error lists the root-relative path of every
  such target, in plan order, and it is returned before any step of the plan runs: the
  receipts and the installed index are those Install started with, and every node of the
  tree is unchanged (only the lock file, skeleton directories and cached downloads may
  have been added before).
\<close>

theorem Install_conflicts:
  assumes "prepare ev m w0 name opts = Inr pd"
  shows "Install ev m w0 name opts =
           (if \<exists>t \<in> set (pl_targets (pd_plan pd)).
                 conflictSpec (pd_world pd) (m_Root m) (pd_ownership pd) name (io_Force opts) t
            then (Inl (ErrInstallConflicts
                        (map (normalizePathForReceipt (m_Root m))
                           (filter (conflictSpec (pd_world pd) (m_Root m) (pd_ownership pd) name
                                      (io_Force opts))
                              (pl_targets (pd_plan pd))))),
                  pd_world pd)
            else if io_DryRun opts then (Inr Receipt0, pd_world pd)
            else commit ev m pd) \<and>
         grows w0 (pd_world pd)"
proof -
  have "(filter (conflictSpec (pd_world pd) (m_Root m) (pd_ownership pd) name (io_Force opts))
           (pl_targets (pd_plan pd)) \<noteq> []) =
        (\<exists>t \<in> set (pl_targets (pd_plan pd)).
            conflictSpec (pd_world pd) (m_Root m) (pd_ownership pd) name (io_Force opts) t)"
    by (simp add: filter_empty_conv)
  then show ?thesis
    using assms prepare_grows(1) [OF assms]
    by (simp add: Install_def checkConflicts_filter Let_def)
qed

section \<open>The example system, evaluated\<close>

lemma follow_40:
  "follow 40 d p =
     (case nodeAt d p of
        Some (Symlink t) \<Rightarrow> follow 39 d (if HasPrefix t ''/'' then Clean t else Join [Dir p, t])
      | r \<Rightarrow> Some (p, r))"
proof -
  have "follow 40 d p = follow (Suc 39) d p" by simp
  then show ?thesis by (simp only: follow.simps)
qed

lemma os_Stat_plain:
  "nodeAt (w_nodes w) p = None \<Longrightarrow> os_Stat w p = None"
  "nodeAt (w_nodes w) p = Some Directory \<Longrightarrow> os_Stat w p = Some Directory"
  "nodeAt (w_nodes w) p = Some (File c perm) \<Longrightarrow> os_Stat w p = Some (File c perm)"
  by (simp_all add: os_Stat_def follow_40)

lemma mkdirChain_present:
  "\<forall>p \<in> set ps. nodeAt (w_nodes w) p = Some Directory \<Longrightarrow> mkdirChain w ps = Inr w"
  by (induction ps) (simp_all add: os_Stat_plain)

lemma app_dirs:
  "nodeAt (w_nodes appWorld) ''/var'' = Some Directory"
  "nodeAt (w_nodes appWorld) ''/var/lock'' = Some Directory"
  "nodeAt (w_nodes appWorld) ''/var/lib'' = Some Directory"
  "nodeAt (w_nodes appWorld) ''/var/lib/ghpm'' = Some Directory"
  "nodeAt (w_nodes appWorld) ''/var/lib/ghpm/packages'' = Some Directory"
  "nodeAt (w_nodes appWorld) ''/var/lib/ghpm/state'' = Some Directory"
  "nodeAt (w_nodes appWorld) ''/var/lib/ghpm/state/work'' = Some Directory"
  "nodeAt (w_nodes appWorld) ''/var/lib/ghpm/state/receipts'' = Some Directory"
  "nodeAt (w_nodes appWorld) ''/var/cache'' = Some Directory"
  "nodeAt (w_nodes appWorld) ''/var/cache/ghpm'' = Some Directory"
  "nodeAt (w_nodes appWorld) ''/var/cache/ghpm/downloads'' = Some Directory"
  "nodeAt (w_nodes appWorld) ''/opt'' = Some Directory"
  "nodeAt (w_nodes appWorld) ''/opt/app'' = Some Directory"
  "nodeAt (w_nodes appWorld) ''/opt/bare'' = Some Directory"
  "nodeAt (w_nodes appWorld) ''/etc'' = Some Directory"
  "nodeAt (w_nodes appWorld) ''/etc/app.conf'' = Some (File ''k=v'' 420)"
  "nodeAt (w_nodes appWorld) ''/opt/b1'' = None"
  "nodeAt (w_nodes appWorld) ''/opt/b2'' = None"
  "nodeAt (w_nodes appWorld) ''/etc/app.conf/x'' = None"
  by (simp_all add: appWorld_def nodeAt_def)


lemma mkdirAll_present:
  "\<forall>p \<in> set (pathChain q). nodeAt (w_nodes w) p = Some Directory \<Longrightarrow> os_MkdirAll w q = Inr w"
  by (simp add: os_MkdirAll_def mkdirChain_present)

lemma skeleton_app:
  "os_MkdirAll appWorld ''/var/lib/ghpm/packages'' = Inr appWorld"
  "os_MkdirAll appWorld ''/var/lib/ghpm/state'' = Inr appWorld"
  "os_MkdirAll appWorld ''/var/lib/ghpm/state/work'' = Inr appWorld"
  "os_MkdirAll appWorld ''/var/cache/ghpm/downloads'' = Inr appWorld"
  "os_MkdirAll appWorld ''/var/lib/ghpm/state/receipts'' = Inr appWorld"
  "os_MkdirAll appWorld ''/opt/app'' = Inr appWorld"
  "os_MkdirAll appWorld ''/opt/bare'' = Inr appWorld"
  by (rule mkdirAll_present, simp add: pathChain_def HasPrefix_def upt_rec app_dirs)+

lemma skeleton_paths:
  "Join [''/'', ''/var/lib/ghpm/packages''] = ''/var/lib/ghpm/packages''"
  "Join [''/'', ''/var/lib/ghpm/state''] = ''/var/lib/ghpm/state''"
  "Join [''/'', ''/var/lib/ghpm/state'', ''work''] = ''/var/lib/ghpm/state/work''"
  "Join [''/'', ''/var/cache/ghpm'', ''downloads''] = ''/var/cache/ghpm/downloads''"
  "Join [''/'', ''/var/lib/ghpm/state'', ''receipts''] = ''/var/lib/ghpm/state/receipts''"
  by (simp_all add: Join_def Clean_def cleanStep_def)

lemma ensure_app:
  "EnsureDirs (m_Config demoManager) (m_Root demoManager) appWorld = (None, appWorld)"
  by (simp add: EnsureDirs_def demoManager_def skeleton_paths skeleton_app)

lemma dirs_app:
  "StateDir demoManager = ''/var/lib/ghpm/state''"
  "PackagesDir demoManager = ''/var/lib/ghpm/packages''"
  "m_Root demoManager = ''/''"
  by (simp_all add: StateDir_def PackagesDir_def demoManager_def skeleton_paths)

lemma index_app:
  "LoadInstalled appWorld (InstalledPath (StateDir demoManager)) = Inr appIndex"
  by (simp add: rp_app LoadInstalled_def appWorld_def appIndex_def)

lemma expand_plain:
  "ExpandTemplate ''/opt/app'' ctx = ''/opt/app''"
  "ExpandTemplate ''/opt/bare'' ctx = ''/opt/bare''"
  "ExpandTemplate ''/opt/b1'' ctx = ''/opt/b1''"
  "ExpandTemplate ''/opt/b2'' ctx = ''/opt/b2''"
  "ExpandTemplate ''/etc/app.conf/x'' ctx = ''/etc/app.conf/x''"
  by (simp_all add: ExpandTemplate_def HasPrefix_def)

lemma join_root:
  "Join [''/'', ''/opt/app''] = ''/opt/app''"
  "Join [''/'', ''/opt/bare''] = ''/opt/bare''"
  "Join [''/'', ''/opt/b1''] = ''/opt/b1''"
  "Join [''/'', ''/opt/b2''] = ''/opt/b2''"
  "Join [''/'', ''/etc/app.conf/x''] = ''/etc/app.conf/x''"
  by (simp_all add: Join_def Clean_def cleanStep_def)

lemma receipt_paths:
  "Join [''/var/lib/ghpm/state'', ''receipts/app.json''] = ''/var/lib/ghpm/state/receipts/app.json''"
  "Join [''/var/lib/ghpm/state'', ''receipts/bare.json''] = ''/var/lib/ghpm/state/receipts/bare.json''"
  by (simp_all add: Join_def Clean_def cleanStep_def)

lemma receipts_app:
  "LoadReceipt appWorld ''/var/lib/ghpm/state/receipts/app.json'' = Inr appReceipt"
  "LoadReceipt appWorld ''/var/lib/ghpm/state/receipts/bare.json'' = Inr bareReceipt"
  by (simp_all add: LoadReceipt_def appWorld_def appReceipt_def bareReceipt_def)

lemma ownershipLoop_app:
  "ownershipLoop appWorld ''/var/lib/ghpm/state'' (is_Installed appIndex) Map.empty =
     Inr [''/opt/app'' \<mapsto> ''app'', ''/opt/app/tool'' \<mapsto> ''app'', ''/opt/app/gone'' \<mapsto> ''app'',
          ''/etc/app.conf'' \<mapsto> ''app'', ''/opt/bare'' \<mapsto> ''bare'']"
  by (simp add: appIndex_def receipt_paths receipts_app)
     (simp add: appReceipt_def bareReceipt_def appFile_def)

lemma manifest_paths:
  "Join [''/var/lib/ghpm/packages'', ''q'', ''package.yaml''] = ''/var/lib/ghpm/packages/q/package.yaml''"
  "Join [''/var/lib/ghpm/packages'', ''app'', ''package.yaml''] = ''/var/lib/ghpm/packages/app/package.yaml''"
  "Join [''/var/lib/ghpm/packages'', ''app-next'', ''package.yaml''] = ''/var/lib/ghpm/packages/app-next/package.yaml''"
  "Join [''/var/lib/ghpm/packages'', ''bare'', ''package.yaml''] = ''/var/lib/ghpm/packages/bare/package.yaml''"
  "Join [''/var/lib/ghpm/packages'', ''broken'', ''package.yaml''] = ''/var/lib/ghpm/packages/broken/package.yaml''"
  by (simp_all add: Join_def Clean_def cleanStep_def)

lemma validate_local:
  "name \<noteq> [] \<Longrightarrow> \<forall>p \<in> set paths. p \<noteq> [] \<Longrightarrow>
     Validate ((localManifest name (map mkdirAction paths))\<lparr>mf_Path := path\<rparr>) = None"
proof -
  have "\<forall>p \<in> set paths. p \<noteq> [] \<Longrightarrow> validateActions i (map mkdirAction paths) = None" for i
    by (induction paths arbitrary: i) (simp_all add: validateAction_def mkdirAction_def)
  then show "name \<noteq> [] \<Longrightarrow> \<forall>p \<in> set paths. p \<noteq> [] \<Longrightarrow>
     Validate ((localManifest name (map mkdirAction paths))\<lparr>mf_Path := path\<rparr>) = None"
    by (simp add: Validate_def localManifest_def)
qed

lemma ownership_app:
  "buildOwnership appWorld demoManager =
     Inr [''/opt/app'' \<mapsto> ''app'', ''/opt/app/tool'' \<mapsto> ''app'', ''/opt/app/gone'' \<mapsto> ''app'',
          ''/etc/app.conf'' \<mapsto> ''app'', ''/opt/bare'' \<mapsto> ''bare'']"
  by (simp add: buildOwnership_def index_app, simp add: dirs_app ownershipLoop_app)

lemma load_local:
  assumes "w_manifests appWorld (Join [''/var/lib/ghpm/packages'', dir, ''package.yaml'']) =
             Some (Decoded (localManifest name (map mkdirAction paths)))"
    and "name \<noteq> []" and "\<forall>p \<in> set paths. p \<noteq> []"
  shows "LoadManifest appWorld demoManager dir =
           Inr ((localManifest name (map mkdirAction paths))
                  \<lparr>mf_Path := Join [''/var/lib/ghpm/packages'', dir, ''package.yaml'']\<rparr>)"
proof -
  have "mf_Name ((localManifest name (map mkdirAction paths))\<lparr>mf_Path := p\<rparr>) \<noteq> []" for p
    using assms(2) by (simp add: localManifest_def)
  then show ?thesis
    using assms(1) validate_local [OF assms(2,3)]
    by (simp add: LoadManifest_def Load_def dirs_app Let_def)
qed

lemma manifest_q:
  "LoadManifest appWorld demoManager ''q'' =
     Inr ((localManifest ''q'' (map mkdirAction [''/opt/app'']))
            \<lparr>mf_Path := ''/var/lib/ghpm/packages/q/package.yaml''\<rparr>)"
  using load_local [of "''q''" "''q''" "[''/opt/app'']"]
  by (simp add: manifest_paths) (simp add: appWorld_def)

lemma buildPlanLoop_mkdirs:
  "buildPlanLoop ev m mf release ctx workDir (map mkdirAction paths) (pl, arts) w =
     (Inr (\<lparr>pl_steps = pl_steps pl @
               map (\<lambda>p. StepMkdirAll (Join [m_Root m, ExpandTemplate p ctx])) paths,
            pl_targets = pl_targets pl @ map (\<lambda>p. Join [m_Root m, ExpandTemplate p ctx]) paths,
            pl_receiptFiles = pl_receiptFiles pl @
               map (\<lambda>p. \<lparr>rf_Path = ExpandTemplate p ctx, rf_Type = ''dir'', rf_Mode = 0,
                          rf_SHA256 = [], rf_To = [], rf_Preserve = False\<rparr>) paths\<rparr>, arts), w)"
proof (induction paths arbitrary: pl)
  case Nil
  show ?case by simp
next
  case (Cons p ps)
  show ?case
    by (simp add: planAction_def mkdirAction_def Let_def parseMode_def Cons [unfolded mkdirAction_def])
qed

lemma buildPlan_local:
  "buildPlan ev m ((localManifest name (map mkdirAction paths))\<lparr>mf_Path := path\<rparr>) release ctx workDir w =
     (Inr (\<lparr>pl_steps = map (\<lambda>p. StepMkdirAll (Join [m_Root m, ExpandTemplate p ctx])) paths,
            pl_targets = map (\<lambda>p. Join [m_Root m, ExpandTemplate p ctx]) paths,
            pl_receiptFiles =
               map (\<lambda>p. \<lparr>rf_Path = ExpandTemplate p ctx, rf_Type = ''dir'', rf_Mode = 0,
                          rf_SHA256 = [], rf_To = [], rf_Preserve = False\<rparr>) paths\<rparr>, []), w)"
  by (simp add: buildPlan_def localManifest_def buildPlanLoop_mkdirs)

text \<open>Preparing the installation of a package of the example that has no source.\<close>

lemma prepare_local:
  assumes mf: "LoadManifest appWorld demoManager dir = Inr mf"
    and shape: "mf = (localManifest name (map mkdirAction paths))\<lparr>mf_Path := path\<rparr>"
    and go: "alreadyInstalled demoEnv demoManager appWorld mf appIndex opts = Inr None"
  shows "prepare demoEnv demoManager appWorld dir opts =
     Inr \<lparr>pd_mf = mf,
          pd_previous = (case LoadReceipt appWorld (ReceiptPath (StateDir demoManager) name) of
                           Inr existing \<Rightarrow> Some existing | Inl e \<Rightarrow> None),
          pd_ownership = [''/opt/app'' \<mapsto> ''app'', ''/opt/app/tool'' \<mapsto> ''app'',
                          ''/opt/app/gone'' \<mapsto> ''app'', ''/etc/app.conf'' \<mapsto> ''app'',
                          ''/opt/bare'' \<mapsto> ''bare''],
          pd_resolved = io_Version opts, pd_release = Release0,
          pd_plan =
            \<lparr>pl_steps = map (\<lambda>p. StepMkdirAll
                                   (Join [''/'', ExpandTemplate p (localCtx (io_Version opts) name)]))
                           paths,
             pl_targets = map (\<lambda>p. Join [''/'', ExpandTemplate p (localCtx (io_Version opts) name)])
                            paths,
             pl_receiptFiles =
               map (\<lambda>p. \<lparr>rf_Path = ExpandTemplate p (localCtx (io_Version opts) name),
                          rf_Type = ''dir'', rf_Mode = 0, rf_SHA256 = [], rf_To = [],
                          rf_Preserve = False\<rparr>) paths\<rparr>,
          pd_artifacts = [], pd_world = appWorld\<rparr>"
proof -
  have n: "mf_Name mf = name" "src_Kind (mf_Source mf) = []" "src_Repo (mf_Source mf) = []"
    by (simp_all add: shape localManifest_def)
  have rv: "resolveVersion (env_net demoEnv) mf (io_Version opts) = Inr (io_Version opts, Release0)"
    by (simp add: resolveVersion_def n)
  have tmp: "env_MkdirTemp demoEnv d pat = Inr (d @ ''/'' @ pat @ ''1'')" for d pat
    by (simp add: demoEnv_def)
  have os: "env_GOOS demoEnv = ''linux''" "env_GOARCH demoEnv = ''amd64''"
    by (simp_all add: demoEnv_def)
  have bp: "buildPlan demoEnv demoManager mf release ctx workDir appWorld =
     (Inr (\<lparr>pl_steps = map (\<lambda>p. StepMkdirAll (Join [''/'', ExpandTemplate p ctx])) paths,
            pl_targets = map (\<lambda>p. Join [''/'', ExpandTemplate p ctx]) paths,
            pl_receiptFiles =
               map (\<lambda>p. \<lparr>rf_Path = ExpandTemplate p ctx, rf_Type = ''dir'', rf_Mode = 0,
                          rf_SHA256 = [], rf_To = [], rf_Preserve = False\<rparr>) paths\<rparr>, []), appWorld)"
    for release ctx workDir
    unfolding shape by (simp add: buildPlan_local dirs_app)
  show ?thesis
    unfolding prepare_def
    by (simp add: lock_app ensure_app mf index_app go ownership_app rv tmp os n Let_def bp
        localCtx_def)
qed

lemma not_installed:
  assumes "map_of (is_Installed installed) (mf_Name mf) = None"
  shows "alreadyInstalled ev m w mf installed opts = Inr None"
  using assms by (simp add: alreadyInstalled_def)

lemma manifest_names:
  "mf_Name ((localManifest name actions)\<lparr>mf_Path := path\<rparr>) = name"
  "src_Kind (mf_Source ((localManifest name actions)\<lparr>mf_Path := path\<rparr>)) = []"
  by (simp_all add: localManifest_def)

lemma prepare_q:
  "prepare demoEnv demoManager appWorld ''q'' (optsFor version force) =
     Inr \<lparr>pd_mf = (localManifest ''q'' (map mkdirAction [''/opt/app'']))
                    \<lparr>mf_Path := ''/var/lib/ghpm/packages/q/package.yaml''\<rparr>,
          pd_previous = None,
          pd_ownership = [''/opt/app'' \<mapsto> ''app'', ''/opt/app/tool'' \<mapsto> ''app'',
                          ''/opt/app/gone'' \<mapsto> ''app'', ''/etc/app.conf'' \<mapsto> ''app'',
                          ''/opt/bare'' \<mapsto> ''bare''],
          pd_resolved = version, pd_release = Release0,
          pd_plan = \<lparr>pl_steps = [StepMkdirAll ''/opt/app''], pl_targets = [''/opt/app''],
                     pl_receiptFiles = [appFile ''/opt/app'' ''dir'' False]\<rparr>,
          pd_artifacts = [], pd_world = appWorld\<rparr>"
proof -
  have go: "alreadyInstalled demoEnv demoManager appWorld
      ((localManifest ''q'' (map mkdirAction [''/opt/app'']))
          \<lparr>mf_Path := ''/var/lib/ghpm/packages/q/package.yaml''\<rparr>) appIndex (optsFor version force)
      = Inr None"
    by (rule not_installed) (simp add: manifest_names appIndex_def)
  have prev: "LoadReceipt appWorld (ReceiptPath (StateDir demoManager) ''q'') = Inl (ErrNotExist ''/var/lib/ghpm/state/receipts/q.json'')"
    by (simp add: ReceiptPath_def dirs_app Join_def Clean_def cleanStep_def LoadReceipt_def)
       (simp add: appWorld_def)
  show ?thesis
    using prepare_local [OF manifest_q refl go]
    by (simp add: prev expand_plain join_root appFile_def optsFor_def)
qed

lemma stat_app: "os_Stat appWorld ''/opt/app'' = Some Directory"
  by (simp add: os_Stat_plain app_dirs)

text \<open>
  The conflict scenario of the specification: \<^verbatim>\<open>app\<close> is installed and owns \<^verbatim>\<open>/opt/app\<close>;
  installing \<^verbatim>\<open>q\<close>, which wants the same path, fails with the conflict and changes nothing.
\<close>

theorem Install_conflicts_witness:
  "Install demoEnv demoManager appWorld ''q'' (optsFor ''1'' False) =
     (Inl (ErrInstallConflicts [''/opt/app'']), appWorld)"
  using Install_conflicts [OF prepare_q, of "''1''" False]
  by (simp add: conflictSpec_def normalizePathForReceipt_def dirs_app optsFor_def)

text \<open>
  The claim as stated fails: with force set, a target that another package owns is still
  reported as a conflict.
\<close>

theorem Install_conflict_despite_force_counterexample:
  "io_Force (optsFor ''1'' True) \<and>
   Install demoEnv demoManager appWorld ''q'' (optsFor ''1'' True) =
     (Inl (ErrInstallConflicts [''/opt/app'']), appWorld)"
  by (simp add: Install_def prepare_q checkConflicts_filter conflictSpec_def
      normalizePathForReceipt_def dirs_app Let_def)
     (simp add: optsFor_def)

section \<open>Packages of the example\<close>

lemma resolve_local:
  "resolveVersion nw ((localManifest name actions)\<lparr>mf_Path := path\<rparr>) version = Inr (version, Release0)"
  by (simp add: resolveVersion_def localManifest_def)

lemma manifest_app_next:
  "LoadManifest appWorld demoManager ''app-next'' =
     Inr ((localManifest ''app'' (map mkdirAction [''/opt/app'']))
            \<lparr>mf_Path := ''/var/lib/ghpm/packages/app-next/package.yaml''\<rparr>)"
  using load_local [of "''app-next''" "''app''" "[''/opt/app'']"]
  by (simp add: manifest_paths) (simp add: appWorld_def)

lemma prepare_app_next:
  "prepare demoEnv demoManager appWorld ''app-next'' (optsFor ''2.0'' False) =
     Inr \<lparr>pd_mf = (localManifest ''app'' (map mkdirAction [''/opt/app'']))
                    \<lparr>mf_Path := ''/var/lib/ghpm/packages/app-next/package.yaml''\<rparr>,
          pd_previous = Some appReceipt,
          pd_ownership = [''/opt/app'' \<mapsto> ''app'', ''/opt/app/tool'' \<mapsto> ''app'',
                          ''/opt/app/gone'' \<mapsto> ''app'', ''/etc/app.conf'' \<mapsto> ''app'',
                          ''/opt/bare'' \<mapsto> ''bare''],
          pd_resolved = ''2.0'', pd_release = Release0,
          pd_plan = \<lparr>pl_steps = [StepMkdirAll ''/opt/app''], pl_targets = [''/opt/app''],
                     pl_receiptFiles = [appFile ''/opt/app'' ''dir'' False]\<rparr>,
          pd_artifacts = [], pd_world = appWorld\<rparr>"
proof -
  have go: "alreadyInstalled demoEnv demoManager appWorld
      ((localManifest ''app'' (map mkdirAction [''/opt/app'']))
          \<lparr>mf_Path := ''/var/lib/ghpm/packages/app-next/package.yaml''\<rparr>) appIndex
      (optsFor ''2.0'' False) = Inr None"
    by (simp add: alreadyInstalled_def manifest_names appIndex_def optsFor_def resolve_local)
  show ?thesis
    using prepare_local [OF manifest_app_next refl go]
    by (simp add: load_app expand_plain join_root appFile_def optsFor_def)
qed

section \<open>Installing what is installed\<close>

text \<open>
  \<^bold>\<open>C3\<close> (as amended). When the lock is taken, the directories of the manager exist or are
  created, the manifest and the installed index load, the index has an entry for the
  manifest's name, force is not set, the resolved version equals the recorded one
  \<^emph>\<open>and is not empty\<close>, and the receipt of the package \<^emph>\<open>loads\<close>, Install returns that
  receipt. The world it returns is the one left by taking the lock and ensuring the
  directories: receipts, index and manifests are what they were and every node that
  existed is unchanged.
\<close>

theorem Install_same_version:
  assumes "lock ev m w0 = (None, w1)"
    and "EnsureDirs (m_Config m) (m_Root m) w1 = (None, w)"
    and "LoadManifest w m name = Inr mf"
    and "LoadInstalled w (InstalledPath (StateDir m)) = Inr installed"
    and "map_of (is_Installed installed) (mf_Name mf) = Some entry"
    and "\<not> io_Force opts"
    and "resolveVersion (env_net ev) mf (io_Version opts) = Inr (resolved, release)"
    and "resolved = ie_Version entry"
    and "resolved \<noteq> []"
    and "LoadReceipt w (ReceiptPath (StateDir m) (mf_Name mf)) = Inr receipt"
  shows "Install ev m w0 name opts = (Inr receipt, w) \<and> grows w0 w"
proof -
  have "alreadyInstalled ev m w mf installed opts = Inr (Some receipt)"
    using assms(5-10) by (simp add: alreadyInstalled_def)
  then have p: "prepare ev m w0 name opts = Inl (Inr receipt, w)"
    using assms(1-4) by (simp add: prepare_def)
  then have "Install ev m w0 name opts = (Inr receipt, w)" by (simp add: Install_def)
  with prepare_grows(2) [OF p] show ?thesis by simp
qed

lemma manifest_app:
  "LoadManifest appWorld demoManager ''app'' =
     Inr ((localManifest ''app'' (map mkdirAction [''/opt/app'']))
            \<lparr>mf_Path := ''/var/lib/ghpm/packages/app/package.yaml''\<rparr>)"
  using load_local [of "''app''" "''app''" "[''/opt/app'']"]
  by (simp add: manifest_paths) (simp add: appWorld_def)

text \<open>
  Installing \<^verbatim>\<open>app\<close> at its recorded version returns its receipt and leaves the world as
  it was.
\<close>

theorem Install_same_version_witness:
  "Install demoEnv demoManager appWorld ''app'' (optsFor ''1.0'' False) = (Inr appReceipt, appWorld)"
proof -
  let ?mf = "(localManifest ''app'' (map mkdirAction [''/opt/app'']))
            \<lparr>mf_Path := ''/var/lib/ghpm/packages/app/package.yaml''\<rparr>"
  have e: "map_of (is_Installed appIndex) (mf_Name ?mf) =
      Some \<lparr>ie_Version = ''1.0'', ie_Receipt = ''receipts/app.json'', ie_InstalledAt = ''t0''\<rparr>"
    by (simp add: manifest_names appIndex_def)
  have f: "\<not> io_Force (optsFor ''1.0'' False)" by (simp add: optsFor_def)
  have r: "resolveVersion (env_net demoEnv) ?mf (io_Version (optsFor ''1.0'' False)) = Inr (''1.0'', Release0)"
    by (simp add: resolve_local optsFor_def)
  have l: "LoadReceipt appWorld (ReceiptPath (StateDir demoManager) (mf_Name ?mf)) = Inr appReceipt"
    by (simp add: manifest_names load_app)
  show ?thesis
    using Install_same_version [OF lock_app ensure_app manifest_app index_app e f r _ _ l]
    by simp
qed

lemma manifest_bare:
  "LoadManifest appWorld demoManager ''bare'' =
     Inr ((localManifest ''bare'' (map mkdirAction [''/opt/bare'']))
            \<lparr>mf_Path := ''/var/lib/ghpm/packages/bare/package.yaml''\<rparr>)"
  using load_local [of "''bare''" "''bare''" "[''/opt/bare'']"]
  by (simp add: manifest_paths) (simp add: appWorld_def)

lemma prepare_bare:
  "prepare demoEnv demoManager appWorld ''bare'' (optsFor [] False) =
     Inr \<lparr>pd_mf = (localManifest ''bare'' (map mkdirAction [''/opt/bare'']))
                    \<lparr>mf_Path := ''/var/lib/ghpm/packages/bare/package.yaml''\<rparr>,
          pd_previous = Some bareReceipt,
          pd_ownership = [''/opt/app'' \<mapsto> ''app'', ''/opt/app/tool'' \<mapsto> ''app'',
                          ''/opt/app/gone'' \<mapsto> ''app'', ''/etc/app.conf'' \<mapsto> ''app'',
                          ''/opt/bare'' \<mapsto> ''bare''],
          pd_resolved = [], pd_release = Release0,
          pd_plan = \<lparr>pl_steps = [StepMkdirAll ''/opt/bare''], pl_targets = [''/opt/bare''],
                     pl_receiptFiles = [appFile ''/opt/bare'' ''dir'' False]\<rparr>,
          pd_artifacts = [], pd_world = appWorld\<rparr>"
proof -
  have go: "alreadyInstalled demoEnv demoManager appWorld
      ((localManifest ''bare'' (map mkdirAction [''/opt/bare'']))
          \<lparr>mf_Path := ''/var/lib/ghpm/packages/bare/package.yaml''\<rparr>) appIndex
      (optsFor [] False) = Inr None"
    by (simp add: alreadyInstalled_def manifest_names appIndex_def optsFor_def resolve_local)
  have prev: "LoadReceipt appWorld (ReceiptPath (StateDir demoManager) ''bare'') = Inr bareReceipt"
    by (simp add: ReceiptPath_def dirs_app Join_def Clean_def cleanStep_def LoadReceipt_def)
       (simp add: appWorld_def bareReceipt_def)
  show ?thesis
    using prepare_local [OF manifest_bare refl go]
    by (simp add: prev expand_plain join_root appFile_def optsFor_def)
qed

lemma installed_path: "InstalledPath ''/var/lib/ghpm/state'' = ''/var/lib/ghpm/state/installed.json''"
  by (simp add: InstalledPath_def Join_def Clean_def cleanStep_def)

lemma bare_paths:
  "ReceiptPath ''/var/lib/ghpm/state'' ''bare'' = ''/var/lib/ghpm/state/receipts/bare.json''"
  "Join [''receipts'', ''bare.json''] = ''receipts/bare.json''"
  by (simp_all add: ReceiptPath_def Join_def Clean_def cleanStep_def)

lemma refused_app: "w_refused appWorld p = False"
  by (simp add: appWorld_def)

lemma commit_bare:
  "LoadInstalled (snd (commit demoEnv demoManager
     \<lparr>pd_mf = (localManifest ''bare'' (map mkdirAction [''/opt/bare'']))
                    \<lparr>mf_Path := ''/var/lib/ghpm/packages/bare/package.yaml''\<rparr>,
          pd_previous = Some bareReceipt,
          pd_ownership = own,
          pd_resolved = [], pd_release = Release0,
          pd_plan = \<lparr>pl_steps = [StepMkdirAll ''/opt/bare''], pl_targets = [''/opt/bare''],
                     pl_receiptFiles = [appFile ''/opt/bare'' ''dir'' False]\<rparr>,
          pd_artifacts = [], pd_world = appWorld\<rparr>)) ''/var/lib/ghpm/state/installed.json'' =
   Inr (appIndex\<lparr>is_Installed :=
          setEntry ''bare'' \<lparr>ie_Version = [], ie_Receipt = ''receipts/bare.json'',
                              ie_InstalledAt = ''t1''\<rparr> (is_Installed appIndex)\<rparr>)"
proof -
  let ?rp = "''/var/lib/ghpm/state/receipts/bare.json''"
  let ?ip = "''/var/lib/ghpm/state/installed.json''"
  let ?w2 = "appWorld\<lparr>w_receipts := (w_receipts appWorld)(?rp \<mapsto> Decoded bareReceipt)\<rparr>"
  let ?new = "appIndex\<lparr>is_Installed :=
          setEntry ''bare'' \<lparr>ie_Version = [], ie_Receipt = ''receipts/bare.json'',
                              ie_InstalledAt = ''t1''\<rparr> (is_Installed appIndex)\<rparr>"
  let ?w3 = "?w2\<lparr>w_index := (w_index ?w2)(?ip \<mapsto> Decoded ?new)\<rparr>"
  have run: "runSteps demoEnv [StepMkdirAll ''/opt/bare''] (appWorld, [appFile ''/opt/bare'' ''dir'' False]) =
      (None, appWorld, [appFile ''/opt/bare'' ''dir'' False])"
    by (simp add: runStep_def skeleton_app attempt_def)
  have rec: "\<lparr>rc_Schema = 1, rc_Name = ''bare'',
       rc_Source = \<lparr>rs_Kind = [], rs_Repo = [], rs_Tag = [], rs_ReleaseID = rel_ID Release0\<rparr>,
       rc_Platform = \<lparr>pf_OS = env_GOOS demoEnv, pf_Arch = env_GOARCH demoEnv\<rparr>,
       rc_Artifacts = [], rc_Files = [appFile ''/opt/bare'' ''dir'' False]\<rparr> = bareReceipt"
    by (simp add: bareReceipt_def demoEnv_def Release0_def)
  have save: "SaveReceipt appWorld ?rp bareReceipt = Inr ?w2"
    by (simp add: SaveReceipt_def refused_app Let_def) (simp add: bareReceipt_def)
  have idx: "LoadInstalled ?w2 ?ip = Inr appIndex"
    using index_app by (simp add: LoadInstalled_def dirs_app installed_path)
  have saved: "RecordInstall (env_now demoEnv) ?w2 ''/var/lib/ghpm/state'' ''bare'' [] = Inr ?w3"
    by (simp add: RecordInstall_def installed_path idx bare_paths SaveInstalled_def refused_app Let_def)
       (simp add: appIndex_def demoEnv_def)
  have obsolete: "removeObsoleteFiles ''/'' bareReceipt bareReceipt w = w" for w
    by (simp add: removeObsoleteFiles_def removeObsolete_def bareReceipt_def)
  have hooks: "runHooks demoEnv [] w = w" for w by (simp add: runHooks_def)
  have "commit demoEnv demoManager
     \<lparr>pd_mf = (localManifest ''bare'' (map mkdirAction [''/opt/bare'']))
                    \<lparr>mf_Path := ''/var/lib/ghpm/packages/bare/package.yaml''\<rparr>,
          pd_previous = Some bareReceipt,
          pd_ownership = own,
          pd_resolved = [], pd_release = Release0,
          pd_plan = \<lparr>pl_steps = [StepMkdirAll ''/opt/bare''], pl_targets = [''/opt/bare''],
                     pl_receiptFiles = [appFile ''/opt/bare'' ''dir'' False]\<rparr>,
          pd_artifacts = [], pd_world = appWorld\<rparr> = (Inr bareReceipt, ?w3)"
    unfolding commit_def Let_def
    by (simp add: run localManifest_def dirs_app bare_paths rec save saved obsolete hooks
        del: runSteps.simps)
  then show ?thesis
    by (simp add: LoadInstalled_def) (simp add: appIndex_def)
qed

text \<open>
  The claim as stated fails when the recorded version is empty. The package \<^verbatim>\<open>bare\<close> is in
  the index with the empty version, force is not set and the resolved version is again
  empty; yet Install runs to its end and rewrites the index, whose entry for \<^verbatim>\<open>bare\<close> gets
  a new time of installation.
\<close>

theorem Install_empty_version_counterexample:
  "LoadInstalled appWorld (InstalledPath (StateDir demoManager)) = Inr appIndex \<and>
   map_of (is_Installed appIndex) ''bare'' =
     Some \<lparr>ie_Version = [], ie_Receipt = ''receipts/bare.json'', ie_InstalledAt = ''t0''\<rparr> \<and>
   \<not> io_Force (optsFor [] False) \<and>
   resolveVersion (env_net demoEnv)
     ((localManifest ''bare'' [mkdirAction ''/opt/bare''])
        \<lparr>mf_Path := ''/var/lib/ghpm/packages/bare/package.yaml''\<rparr>) (io_Version (optsFor [] False)) =
     Inr ([], Release0) \<and>
   LoadInstalled (snd (Install demoEnv demoManager appWorld ''bare'' (optsFor [] False)))
       (InstalledPath (StateDir demoManager)) =
     Inr \<lparr>is_Schema = 1,
          is_Installed = [(''app'', \<lparr>ie_Version = ''1.0'', ie_Receipt = ''receipts/app.json'',
                                     ie_InstalledAt = ''t0''\<rparr>),
                          (''bare'', \<lparr>ie_Version = [], ie_Receipt = ''receipts/bare.json'',
                                      ie_InstalledAt = ''t1''\<rparr>)]\<rparr>"
proof -
  have c: "checkConflicts appWorld demoManager [''/opt/bare'']
      [''/opt/app'' \<mapsto> ''app'', ''/opt/app/tool'' \<mapsto> ''app'', ''/opt/app/gone'' \<mapsto> ''app'',
       ''/etc/app.conf'' \<mapsto> ''app'', ''/opt/bare'' \<mapsto> ''bare''] ''bare'' False = []"
    by (simp add: checkConflicts_filter conflictSpec_def normalizePathForReceipt_def dirs_app Let_def)
  have "Install demoEnv demoManager appWorld ''bare'' (optsFor [] False) =
      commit demoEnv demoManager \<lparr>pd_mf = (localManifest ''bare'' (map mkdirAction [''/opt/bare'']))
                    \<lparr>mf_Path := ''/var/lib/ghpm/packages/bare/package.yaml''\<rparr>,
          pd_previous = Some bareReceipt,
          pd_ownership = [''/opt/app'' \<mapsto> ''app'', ''/opt/app/tool'' \<mapsto> ''app'',
                          ''/opt/app/gone'' \<mapsto> ''app'', ''/etc/app.conf'' \<mapsto> ''app'',
                          ''/opt/bare'' \<mapsto> ''bare''],
          pd_resolved = [], pd_release = Release0,
          pd_plan = \<lparr>pl_steps = [StepMkdirAll ''/opt/bare''], pl_targets = [''/opt/bare''],
                     pl_receiptFiles = [appFile ''/opt/bare'' ''dir'' False]\<rparr>,
          pd_artifacts = [], pd_world = appWorld\<rparr>"
    unfolding Install_def prepare_bare by (simp add: c Let_def optsFor_def)
  then have i: "LoadInstalled (snd (Install demoEnv demoManager appWorld ''bare'' (optsFor [] False)))
       ''/var/lib/ghpm/state/installed.json'' =
     Inr (appIndex\<lparr>is_Installed :=
          setEntry ''bare'' \<lparr>ie_Version = [], ie_Receipt = ''receipts/bare.json'',
                              ie_InstalledAt = ''t1''\<rparr> (is_Installed appIndex)\<rparr>)"
    by (simp only: commit_bare)
  have m: "map mkdirAction [''/opt/bare''] = [mkdirAction ''/opt/bare'']" by simp
  show ?thesis
    unfolding dirs_app installed_path i
    by (simp add: index_app [unfolded dirs_app installed_path] resolve_local)
       (simp add: appIndex_def optsFor_def)
qed

section \<open>Paths stored in receipts\<close>

lemma staged_paths:
  "Join [''/tmp/r'', ''opt/tool''] = ''/tmp/r/opt/tool''"
  "Join [''/tmp/r'', ''bin/tool''] = ''/tmp/r/bin/tool''"
  by (simp_all add: Join_def Clean_def cleanStep_def)

lemma expand_relative:
  "ExpandTemplate ''opt/tool'' ctx = ''opt/tool''"
  "ExpandTemplate ''bin/tool'' ctx = ''bin/tool''"
  "ExpandTemplate ''../opt/tool/tool'' ctx = ''../opt/tool/tool''"
  by (simp_all add: ExpandTemplate_def HasPrefix_def)

text \<open>
  \<^bold>\<open>C5\<close>, at an input where the code departs from it. With the root \<^verbatim>\<open>/tmp/r\<close> and targets
  written without a leading slash, the plan records for the directory and for the link the
  target as the manifest spells it, \<^verbatim>\<open>opt/tool\<close> and \<^verbatim>\<open>bin/tool\<close>; the paths that
  \<^verbatim>\<open>normalizePathForReceipt\<close> gives for the same targets, and under which the conflict check
  looks them up, are \<^verbatim>\<open>/opt/tool\<close> and \<^verbatim>\<open>/bin/tool\<close>.
\<close>

theorem buildPlan_relative_targets:
  "m_Root stagedManager = ''/tmp/r'' \<and>
   buildPlan demoEnv stagedManager relativeManifest Release0 (localCtx ''1'' ''tool'') ''/tmp/work'' appWorld =
     (Inr (\<lparr>pl_steps = [StepMkdirAll ''/tmp/r/opt/tool'',
                          StepSymlink ''/tmp/r/bin/tool'' ''../opt/tool/tool''],
            pl_targets = [''/tmp/r/opt/tool'', ''/tmp/r/bin/tool''],
            pl_receiptFiles =
              [\<lparr>rf_Path = ''opt/tool'', rf_Type = ''dir'', rf_Mode = 0, rf_SHA256 = [],
                rf_To = [], rf_Preserve = False\<rparr>,
               \<lparr>rf_Path = ''bin/tool'', rf_Type = ''symlink'', rf_Mode = 0, rf_SHA256 = [],
                rf_To = ''../opt/tool/tool'', rf_Preserve = False\<rparr>]\<rparr>, []), appWorld) \<and>
   normalizePathForReceipt ''/tmp/r'' ''/tmp/r/opt/tool'' = ''/opt/tool'' \<and>
   normalizePathForReceipt ''/tmp/r'' ''/tmp/r/bin/tool'' = ''/bin/tool''"
  by (simp add: stagedManager_def relativeManifest_def buildPlan_def localManifest_def
      planAction_def mkdirAction_def expand_relative staged_paths parseMode_def Let_def
      normalizePathForReceipt_def TrimPrefix_def HasPrefix_def)

section \<open>Elements of a cleaned path\<close>





















section \<open>Listing an archive\<close>









section \<open>Name of the package and name of the manifest\<close>

lemma owners_foldl:
  "foldl (\<lambda>own f. own(rf_Path f \<mapsto> name)) own0 fs p = Some n \<Longrightarrow>
     own0 p = Some n \<or> (n = name \<and> p \<in> rf_Path ` set fs)"
  by (induction fs arbitrary: own0) (fastforce split: if_splits)+

lemma ownershipLoop_keys:
  "ownershipLoop w sd es own0 = Inr own \<Longrightarrow> own p = Some n \<Longrightarrow>
     own0 p = Some n \<or>
     (\<exists>entry receipt. (n, entry) \<in> set es \<and> LoadReceipt w (Join [sd, ie_Receipt entry]) = Inr receipt \<and>
        p \<in> rf_Path ` set (rc_Files receipt))"
proof (induction es arbitrary: own0)
  case Nil
  then show ?case by simp
next
  case (Cons a es)
  obtain k entry where a: "a = (k, entry)" by (cases a)
  show ?case
  proof (cases "LoadReceipt w (Join [sd, ie_Receipt entry])")
    case (Inl e)
    with Cons.prems a have "ownershipLoop w sd es own0 = Inr own" by (simp split: if_splits)
    from Cons.IH [OF this Cons.prems(2)] show ?thesis by auto
  next
    case (Inr receipt)
    let ?own1 = "foldl (\<lambda>own f. own(rf_Path f \<mapsto> k)) own0 (rc_Files receipt)"
    from Cons.prems a Inr have "ownershipLoop w sd es ?own1 = Inr own" by simp
    from Cons.IH [OF this Cons.prems(2)]
    show ?thesis
    proof
      assume "?own1 p = Some n"
      from owners_foldl [OF this] show ?thesis using a Inr by auto
    next
      assume "\<exists>entry receipt. (n, entry) \<in> set es \<and> LoadReceipt w (Join [sd, ie_Receipt entry]) = Inr receipt \<and>
        p \<in> rf_Path ` set (rc_Files receipt)"
      then show ?thesis by auto
    qed
  qed
qed

lemma buildOwnership_keys:
  assumes "buildOwnership w m = Inr own" and "own p = Some n"
  shows "\<exists>installed entry receipt. LoadInstalled w (InstalledPath (StateDir m)) = Inr installed \<and>
           (n, entry) \<in> set (is_Installed installed) \<and>
           LoadReceipt w (Join [StateDir m, ie_Receipt entry]) = Inr receipt \<and>
           p \<in> rf_Path ` set (rc_Files receipt)"
proof -
  from assms(1) obtain installed where
    i: "LoadInstalled w (InstalledPath (StateDir m)) = Inr installed"
    and l: "ownershipLoop w (StateDir m) (is_Installed installed) Map.empty = Inr own"
    by (auto simp: buildOwnership_def split: sum.splits)
  from ownershipLoop_keys [OF l assms(2)] i show ?thesis by auto
qed

lemma stores_same:
  assumes "w_receipts w' = w_receipts w" and "w_index w' = w_index w" and "w_manifests w' = w_manifests w"
  shows "LoadReceipt w' p = LoadReceipt w p" "LoadInstalled w' p = LoadInstalled w p"
    "LoadManifest w' m name = LoadManifest w m name" "buildOwnership w' m = buildOwnership w m"
proof -
  show r: "LoadReceipt w' p = LoadReceipt w p" for p by (simp add: LoadReceipt_def assms)
  show i: "LoadInstalled w' p = LoadInstalled w p" for p by (simp add: LoadInstalled_def assms)
  show "LoadManifest w' m name = LoadManifest w m name"
    by (simp add: LoadManifest_def Load_def assms)
  have "ownershipLoop w' sd es own = ownershipLoop w sd es own" for sd es own
    by (induction es arbitrary: own) (auto simp: r split: sum.splits)
  then show "buildOwnership w' m = buildOwnership w m"
    by (simp add: buildOwnership_def i split: sum.splits)
qed

lemma prepare_loaded:
  assumes "prepare ev m w0 name opts = Inr pd"
  shows "LoadManifest w0 m name = Inr (pd_mf pd)" and "buildOwnership w0 m = Inr (pd_ownership pd)"
proof -
  from assms obtain w1 w where l: "lock ev m w0 = (None, w1)"
    and e: "EnsureDirs (m_Config m) (m_Root m) w1 = (None, w)"
    and mf: "LoadManifest w m name = Inr (pd_mf pd)"
    and own: "buildOwnership w m = Inr (pd_ownership pd)"
    by (auto simp: prepare_def Let_def split: prod.splits option.splits sum.splits)
  have "grows w0 w1" using lock_grows [where w = w0 and ev = ev and m = m] l by simp
  moreover have "grows w1 w" using EnsureDirs_grows [where w = w1 and c = "m_Config m" and root = "m_Root m"] e by simp
  ultimately have "grows w0 w" by (rule grows_trans)
  then have same: "w_receipts w = w_receipts w0" "w_index w = w_index w0" "w_manifests w = w_manifests w0"
    by (simp_all add: grows_def)
  show "LoadManifest w0 m name = Inr (pd_mf pd)" using mf stores_same(3) [OF same] by simp
  show "buildOwnership w0 m = Inr (pd_ownership pd)" using own stores_same(4) [OF same] by simp
qed


lemma map_of_setEntry: "map_of (setEntry name e es) name = Some e"
  by (induction es) auto

lemma RecordInstall_entry:
  assumes "RecordInstall now w sd name version = Inr w'"
  shows "w_receipts w' = w_receipts w"
    and "\<exists>s e. w_index w' (InstalledPath sd) = Some (Decoded s) \<and>
               map_of (is_Installed s) name = Some e \<and> ie_Version e = version"
proof -
  from assms obtain installed where
    sv: "SaveInstalled w (InstalledPath sd)
           (installed\<lparr>is_Installed :=
              setEntry name \<lparr>ie_Version = version, ie_Receipt = Join [''receipts'', name @ ''.json''],
                              ie_InstalledAt = now\<rparr> (is_Installed installed)\<rparr>) = Inr w'"
    by (auto simp: RecordInstall_def split: sum.splits)
  then show "w_receipts w' = w_receipts w"
    by (auto simp: SaveInstalled_def Let_def split: if_splits)
  from sv show "\<exists>s e. w_index w' (InstalledPath sd) = Some (Decoded s) \<and>
               map_of (is_Installed s) name = Some e \<and> ie_Version e = version"
    by (auto simp: SaveInstalled_def Let_def map_of_setEntry split: if_splits)
qed

lemma commit_recorded:
  assumes "commit ev m pd = (Inr receipt, w')"
  shows "rc_Name receipt = mf_Name (pd_mf pd) \<and>
         (\<exists>w3. w_receipts w3 (ReceiptPath (StateDir m) (mf_Name (pd_mf pd))) = Some (Decoded receipt) \<and>
               (\<exists>s e. w_index w3 (InstalledPath (StateDir m)) = Some (Decoded s) \<and>
                      map_of (is_Installed s) (mf_Name (pd_mf pd)) = Some e \<and>
                      ie_Version e = pd_resolved pd) \<and>
               w' = runHooks ev (mf_PostInstall (pd_mf pd))
                      (case pd_previous pd of
                         Some previous \<Rightarrow> removeObsoleteFiles (m_Root m) previous receipt w3
                       | None \<Rightarrow> w3))"
proof -
  let ?mf = "pd_mf pd"
  let ?rp = "ReceiptPath (StateDir m) (mf_Name ?mf)"
  obtain err w1 receiptFiles where
    run: "runSteps ev (pl_steps (pd_plan pd)) (pd_world pd, pl_receiptFiles (pd_plan pd)) =
            (err, w1, receiptFiles)"
    by (cases "runSteps ev (pl_steps (pd_plan pd)) (pd_world pd, pl_receiptFiles (pd_plan pd))") auto
  let ?r = "\<lparr>rc_Schema = 1, rc_Name = mf_Name ?mf,
             rc_Source = \<lparr>rs_Kind = src_Kind (mf_Source ?mf), rs_Repo = src_Repo (mf_Source ?mf),
                          rs_Tag = pd_resolved pd, rs_ReleaseID = rel_ID (pd_release pd)\<rparr>,
             rc_Platform = \<lparr>pf_OS = env_GOOS ev, pf_Arch = env_GOARCH ev\<rparr>,
             rc_Artifacts = pd_artifacts pd, rc_Files = receiptFiles\<rparr>"
  from assms run have none: "err = None"
    by (cases err) (simp_all add: commit_def Let_def)
  from assms run none obtain w2 where sr: "SaveReceipt w1 ?rp ?r = Inr w2"
    by (cases "SaveReceipt w1 ?rp ?r") (simp_all add: commit_def Let_def)
  from assms run none sr obtain w3 where
    ri: "RecordInstall (env_now ev) w2 (StateDir m) (mf_Name ?mf) (pd_resolved pd) = Inr w3"
    by (cases "RecordInstall (env_now ev) w2 (StateDir m) (mf_Name ?mf) (pd_resolved pd)")
       (simp_all add: commit_def Let_def)
  have "commit ev m pd =
      (Inr ?r, runHooks ev (mf_PostInstall ?mf)
                     (case pd_previous pd of
                        Some previous \<Rightarrow> removeObsoleteFiles (m_Root m) previous ?r w3
                      | None \<Rightarrow> w3))"
    using run none sr ri by (cases "pd_previous pd") (simp_all add: commit_def Let_def)
  with assms have res: "receipt = ?r"
    and w': "w' = runHooks ev (mf_PostInstall ?mf)
                     (case pd_previous pd of
                        Some previous \<Rightarrow> removeObsoleteFiles (m_Root m) previous ?r w3
                      | None \<Rightarrow> w3)"
    by simp_all
  from sr have "w_receipts w2 ?rp = Some (Decoded ?r)"
    by (auto simp: SaveReceipt_def Let_def split: if_splits)
  with RecordInstall_entry(1) [OF ri] have "w_receipts w3 ?rp = Some (Decoded ?r)" by simp
  with RecordInstall_entry(2) [OF ri] res w' show ?thesis by auto
qed

lemma Load_name:
  assumes "Load w path = Inr mf"
  shows "\<exists>m0. w_manifests w path = Some (Decoded m0) \<and>
               mf_Name mf = (if mf_Name m0 = [] then Base (Dir path) else mf_Name m0)"
  using assms
  by (auto simp: Load_def Let_def split: option.splits stored.splits if_splits)

text \<open>
  \<^bold>\<open>C10\<close> (as amended). Let Install get as far as the conflict check, called with a name
  that is not the name of the manifest it loaded from the directory of that name. The
  manifest's name is the one written in the manifest, or the base name of its directory
  when none is written. The ownership map is the one built from the index, and takes a
  path to the key of an index entry whose receipt lists the path. The conflict check is
  given the name Install was called with: a planned target that the map records under the
  manifest's name makes Install fail with an install conflict that lists it. And an
  installation that completes writes the receipt, named after the manifest, at the receipt
  path of the manifest's name and records the resolved version in the index under the
  manifest's name.
\<close>

theorem Install_name_mismatch:
  assumes "prepare ev m w0 name opts = Inr pd"
    and "name \<noteq> mf_Name (pd_mf pd)"
  shows "LoadManifest w0 m name = Inr (pd_mf pd) \<and>
         (\<exists>m0. w_manifests w0 (Join [PackagesDir m, name, ''package.yaml'']) = Some (Decoded m0) \<and>
               mf_Name (pd_mf pd) =
                 (if mf_Name m0 = [] then Base (Dir (Join [PackagesDir m, name, ''package.yaml'']))
                  else mf_Name m0)) \<and>
         buildOwnership w0 m = Inr (pd_ownership pd) \<and>
         (\<forall>p owner. pd_ownership pd p = Some owner \<longrightarrow>
            (\<exists>installed entry receipt.
               LoadInstalled w0 (InstalledPath (StateDir m)) = Inr installed \<and>
               (owner, entry) \<in> set (is_Installed installed) \<and>
               LoadReceipt w0 (Join [StateDir m, ie_Receipt entry]) = Inr receipt \<and>
               p \<in> rf_Path ` set (rc_Files receipt))) \<and>
         (\<forall>t \<in> set (pl_targets (pd_plan pd)).
            pd_ownership pd (normalizePathForReceipt (m_Root m) t) = Some (mf_Name (pd_mf pd)) \<longrightarrow>
            (\<exists>cs. Install ev m w0 name opts = (Inl (ErrInstallConflicts cs), pd_world pd) \<and>
                  normalizePathForReceipt (m_Root m) t \<in> set cs)) \<and>
         (\<forall>receipt w'. commit ev m pd = (Inr receipt, w') \<longrightarrow>
            rc_Name receipt = mf_Name (pd_mf pd) \<and>
            (\<exists>w3. w_receipts w3 (ReceiptPath (StateDir m) (mf_Name (pd_mf pd))) = Some (Decoded receipt) \<and>
                  (\<exists>s e. w_index w3 (InstalledPath (StateDir m)) = Some (Decoded s) \<and>
                         map_of (is_Installed s) (mf_Name (pd_mf pd)) = Some e \<and>
                         ie_Version e = pd_resolved pd) \<and>
                  w' = runHooks ev (mf_PostInstall (pd_mf pd))
                         (case pd_previous pd of
                            Some previous \<Rightarrow> removeObsoleteFiles (m_Root m) previous receipt w3
                          | None \<Rightarrow> w3)))"
proof -
  let ?c = "conflictSpec (pd_world pd) (m_Root m) (pd_ownership pd) name (io_Force opts)"
  note loaded = prepare_loaded [OF assms(1)]
  have named: "\<exists>m0. w_manifests w0 (Join [PackagesDir m, name, ''package.yaml'']) = Some (Decoded m0) \<and>
               mf_Name (pd_mf pd) =
                 (if mf_Name m0 = [] then Base (Dir (Join [PackagesDir m, name, ''package.yaml'']))
                  else mf_Name m0)"
    using loaded(1) by (simp add: LoadManifest_def Load_name)
  have keys: "\<exists>installed entry receipt.
               LoadInstalled w0 (InstalledPath (StateDir m)) = Inr installed \<and>
               (owner, entry) \<in> set (is_Installed installed) \<and>
               LoadReceipt w0 (Join [StateDir m, ie_Receipt entry]) = Inr receipt \<and>
               p \<in> rf_Path ` set (rc_Files receipt)"
    if "pd_ownership pd p = Some owner" for p owner
    using loaded(2) that by (rule buildOwnership_keys)
  have conflict: "\<exists>cs. Install ev m w0 name opts = (Inl (ErrInstallConflicts cs), pd_world pd) \<and>
                  normalizePathForReceipt (m_Root m) t \<in> set cs"
    if t: "t \<in> set (pl_targets (pd_plan pd))"
      and own: "pd_ownership pd (normalizePathForReceipt (m_Root m) t) = Some (mf_Name (pd_mf pd))"
    for t
  proof -
    have c: "?c t" using assms(2) own by (auto simp: conflictSpec_def Let_def)
    with t have ne: "filter ?c (pl_targets (pd_plan pd)) \<noteq> []"
      by (auto simp: filter_empty_conv)
    have "Install ev m w0 name opts =
        (Inl (ErrInstallConflicts (map (normalizePathForReceipt (m_Root m))
            (filter ?c (pl_targets (pd_plan pd))))), pd_world pd)"
      using assms(1) ne by (simp add: Install_def checkConflicts_filter Let_def)
    moreover have "normalizePathForReceipt (m_Root m) t \<in>
        set (map (normalizePathForReceipt (m_Root m)) (filter ?c (pl_targets (pd_plan pd))))"
      using c t by auto
    ultimately show ?thesis by blast
  qed
  have recorded: "rc_Name receipt = mf_Name (pd_mf pd) \<and>
            (\<exists>w3. w_receipts w3 (ReceiptPath (StateDir m) (mf_Name (pd_mf pd))) = Some (Decoded receipt) \<and>
                  (\<exists>s e. w_index w3 (InstalledPath (StateDir m)) = Some (Decoded s) \<and>
                         map_of (is_Installed s) (mf_Name (pd_mf pd)) = Some e \<and>
                         ie_Version e = pd_resolved pd) \<and>
                  w' = runHooks ev (mf_PostInstall (pd_mf pd))
                         (case pd_previous pd of
                            Some previous \<Rightarrow> removeObsoleteFiles (m_Root m) previous receipt w3
                          | None \<Rightarrow> w3))"
    if "commit ev m pd = (Inr receipt, w')" for receipt w'
    using that by (rule commit_recorded)
  from keys have keys': "\<forall>p owner. pd_ownership pd p = Some owner \<longrightarrow>
            (\<exists>installed entry receipt.
               LoadInstalled w0 (InstalledPath (StateDir m)) = Inr installed \<and>
               (owner, entry) \<in> set (is_Installed installed) \<and>
               LoadReceipt w0 (Join [StateDir m, ie_Receipt entry]) = Inr receipt \<and>
               p \<in> rf_Path ` set (rc_Files receipt))"
    by blast
  from conflict have conflict': "\<forall>t \<in> set (pl_targets (pd_plan pd)).
            pd_ownership pd (normalizePathForReceipt (m_Root m) t) = Some (mf_Name (pd_mf pd)) \<longrightarrow>
            (\<exists>cs. Install ev m w0 name opts = (Inl (ErrInstallConflicts cs), pd_world pd) \<and>
                  normalizePathForReceipt (m_Root m) t \<in> set cs)"
    by blast
  from recorded have recorded': "\<forall>receipt w'. commit ev m pd = (Inr receipt, w') \<longrightarrow>
            rc_Name receipt = mf_Name (pd_mf pd) \<and>
            (\<exists>w3. w_receipts w3 (ReceiptPath (StateDir m) (mf_Name (pd_mf pd))) = Some (Decoded receipt) \<and>
                  (\<exists>s e. w_index w3 (InstalledPath (StateDir m)) = Some (Decoded s) \<and>
                         map_of (is_Installed s) (mf_Name (pd_mf pd)) = Some e \<and>
                         ie_Version e = pd_resolved pd) \<and>
                  w' = runHooks ev (mf_PostInstall (pd_mf pd))
                         (case pd_previous pd of
                            Some previous \<Rightarrow> removeObsoleteFiles (m_Root m) previous receipt w3
                          | None \<Rightarrow> w3))"
    by blast
  from loaded(1) named loaded(2) keys' conflict' recorded' show ?thesis
    by (intro conjI)
qed

text \<open>
  The directory \<^verbatim>\<open>app-next\<close> holds a manifest whose name is \<^verbatim>\<open>app\<close>; installing it at a
  version that is not the recorded one reports \<^verbatim>\<open>/opt/app\<close>, which \<^verbatim>\<open>app\<close> owns, as a
  conflict.
\<close>

theorem Install_name_mismatch_witness:
  "mf_Name ((localManifest ''app'' (map mkdirAction [''/opt/app'']))
              \<lparr>mf_Path := ''/var/lib/ghpm/packages/app-next/package.yaml''\<rparr>) = ''app'' \<and>
   (\<exists>cs. Install demoEnv demoManager appWorld ''app-next'' (optsFor ''2.0'' False) =
            (Inl (ErrInstallConflicts cs), appWorld) \<and> ''/opt/app'' \<in> set cs)"
proof -
  have differ: "''app-next'' \<noteq> mf_Name (pd_mf
      \<lparr>pd_mf = (localManifest ''app'' (map mkdirAction [''/opt/app'']))
                    \<lparr>mf_Path := ''/var/lib/ghpm/packages/app-next/package.yaml''\<rparr>,
          pd_previous = Some appReceipt,
          pd_ownership = [''/opt/app'' \<mapsto> ''app'', ''/opt/app/tool'' \<mapsto> ''app'',
                          ''/opt/app/gone'' \<mapsto> ''app'', ''/etc/app.conf'' \<mapsto> ''app'',
                          ''/opt/bare'' \<mapsto> ''bare''],
          pd_resolved = ''2.0'', pd_release = Release0,
          pd_plan = \<lparr>pl_steps = [StepMkdirAll ''/opt/app''], pl_targets = [''/opt/app''],
                     pl_receiptFiles = [appFile ''/opt/app'' ''dir'' False]\<rparr>,
          pd_artifacts = [], pd_world = appWorld\<rparr>)"
    by (simp add: manifest_names)
  note inst = Install_name_mismatch [OF prepare_app_next differ]
  have "\<exists>cs. Install demoEnv demoManager appWorld ''app-next'' (optsFor ''2.0'' False) =
            (Inl (ErrInstallConflicts cs), appWorld) \<and> ''/opt/app'' \<in> set cs"
    using inst [THEN conjunct2, THEN conjunct2, THEN conjunct2, THEN conjunct2, THEN conjunct1,
        rule_format, of "''/opt/app''"]
    by (simp add: manifest_names normalizePathForReceipt_def dirs_app)
  then show ?thesis by (simp add: manifest_names)
qed

text \<open>
  The claim as stated fails for an install that never reaches the conflict check. The
  names differ and \<^verbatim>\<open>/opt/app\<close> is recorded under the manifest's name, yet installing
  \<^verbatim>\<open>app-next\<close> at the recorded version returns the stored receipt and reports no conflict.
\<close>

theorem Install_name_mismatch_recorded_version_counterexample:
  "LoadManifest appWorld demoManager ''app-next'' =
     Inr ((localManifest ''app'' [mkdirAction ''/opt/app''])
            \<lparr>mf_Path := ''/var/lib/ghpm/packages/app-next/package.yaml''\<rparr>) \<and>
   mf_Name ((localManifest ''app'' [mkdirAction ''/opt/app''])
            \<lparr>mf_Path := ''/var/lib/ghpm/packages/app-next/package.yaml''\<rparr>) \<noteq> ''app-next'' \<and>
   buildOwnership appWorld demoManager =
     Inr [''/opt/app'' \<mapsto> ''app'', ''/opt/app/tool'' \<mapsto> ''app'', ''/opt/app/gone'' \<mapsto> ''app'',
          ''/etc/app.conf'' \<mapsto> ''app'', ''/opt/bare'' \<mapsto> ''bare''] \<and>
   Install demoEnv demoManager appWorld ''app-next'' (optsFor ''1.0'' False) = (Inr appReceipt, appWorld)"
proof -
  let ?mf = "(localManifest ''app'' [mkdirAction ''/opt/app''])
            \<lparr>mf_Path := ''/var/lib/ghpm/packages/app-next/package.yaml''\<rparr>"
  have go: "alreadyInstalled demoEnv demoManager appWorld ?mf appIndex (optsFor ''1.0'' False) =
      Inr (Some appReceipt)"
    by (simp add: alreadyInstalled_def manifest_names appIndex_def optsFor_def resolve_local load_app)
  have "prepare demoEnv demoManager appWorld ''app-next'' (optsFor ''1.0'' False) =
      Inl (Inr appReceipt, appWorld)"
    by (simp add: prepare_def lock_app ensure_app manifest_app_next index_app go)
  then have i: "Install demoEnv demoManager appWorld ''app-next'' (optsFor ''1.0'' False) =
      (Inr appReceipt, appWorld)"
    by (simp add: Install_def)
  show ?thesis
    using manifest_app_next ownership_app i by (simp add: manifest_names)
qed

end
